theory Spec2Isabelle
  imports Complex_Main "HOL-Library.Word"
begin

section \<open>Strings and formatting\<close>

text \<open>
  Go strings are byte sequences; they are modelled as \<open>string\<close>.  The two library
  calls the package makes on strings are \<open>strings.Contains\<close> and the \<open>%d\<close> verb of
  \<open>fmt\<close>; both are written out so that they can be evaluated.
\<close>

fun strings_HasPrefix :: "string \<Rightarrow> string \<Rightarrow> bool" where
  "strings_HasPrefix s [] = True"
| "strings_HasPrefix [] (c # cs) = False"
| "strings_HasPrefix (x # xs) (c # cs) = (x = c \<and> strings_HasPrefix xs cs)"

fun strings_Contains :: "string \<Rightarrow> string \<Rightarrow> bool" where
  "strings_Contains [] sub = (sub = [])"
| "strings_Contains (x # xs) sub =
     (strings_HasPrefix (x # xs) sub \<or> strings_Contains xs sub)"

definition digit_char :: "nat \<Rightarrow> char" where
  "digit_char d = ''0123456789'' ! d"

fun nat_digits :: "nat \<Rightarrow> string" where
  "nat_digits n =
     (if n < 10 then [digit_char n] else nat_digits (n div 10) @ [digit_char (n mod 10)])"

declare nat_digits.simps [simp del]

definition strconv_Itoa :: "int \<Rightarrow> string" where
  "strconv_Itoa i = (if i < 0 then CHR ''-'' # nat_digits (nat (- i)) else nat_digits (nat i))"

section \<open>Go error values\<close>

text \<open>
  An \<open>error\<close> of the package is one of the values below.  Each constructor is a
  dynamic type that reaches \<open>SendMessage\<close>:
  \<^item> \<open>ErrorString\<close>: the result of \<open>errors.New\<close> or of \<open>fmt.Errorf\<close> without \<open>%w\<close>
    (only a message, no wrapped error);
  \<^item> \<open>WrapError p e\<close>: the result of \<open>fmt.Errorf(p + "%w", e)\<close>, whose message is
    \<open>p\<close> followed by the message of \<open>e\<close> and which unwraps to \<open>e\<close>;
  \<^item> \<open>Canceled\<close> and \<open>DeadlineExceeded\<close>: the two sentinels of package \<open>context\<close>.
    The type of \<open>context.DeadlineExceeded\<close> has the methods \<open>Timeout() = true\<close> and
    \<open>Temporary() = true\<close>, so it satisfies the interface \<open>net.Error\<close>;
    \<open>context.Canceled\<close> is a plain \<open>errors.New\<close> value;
  \<^item> \<open>UrlError op url e\<close>: the \<open>*url.Error\<close> that \<open>http.Client.Do\<close> and
    \<open>url.Parse\<close> return; its message is \<open>op "url": e\<close>, it unwraps to \<open>e\<close>, and its
    \<open>Timeout\<close> method asks \<open>e\<close> (directly, not along the chain);
  \<^item> \<open>OpError msg timeout\<close>: a transport error below the HTTP client (dial, read,
    TLS, DNS), a \<open>net.Error\<close> with its message and its \<open>Timeout()\<close> flag;
  \<^item> \<open>ErrOpenState\<close> and \<open>ErrTooManyRequests\<close>: the sentinels of the circuit breaker.
\<close>

datatype go_error =
    ErrorString string
  | WrapError string go_error
  | Canceled
  | DeadlineExceeded
  | UrlError string string go_error
  | OpError string bool
  | ErrOpenState
  | ErrTooManyRequests

text \<open>\<open>strconv.Quote\<close> on a string of printable ASCII without quote or backslash.\<close>

definition strconv_Quote :: "string \<Rightarrow> string" where
  "strconv_Quote s = [CHR 0x22] @ s @ [CHR 0x22]"

fun Error :: "go_error \<Rightarrow> string" where
  "Error (ErrorString s) = s"
| "Error (WrapError p e) = p @ Error e"
| "Error Canceled = ''context canceled''"
| "Error DeadlineExceeded = ''context deadline exceeded''"
| "Error (UrlError opn url e) = opn @ '' '' @ strconv_Quote url @ '': '' @ Error e"
| "Error (OpError msg t) = msg"
| "Error ErrOpenState = ''circuit breaker is open''"
| "Error ErrTooManyRequests = ''too many requests''"

text \<open>The dynamic types that have the three methods of \<open>net.Error\<close>.\<close>

fun implements_net_Error :: "go_error \<Rightarrow> bool" where
  "implements_net_Error DeadlineExceeded = True"
| "implements_net_Error (UrlError opn url e) = True"
| "implements_net_Error (OpError msg t) = True"
| "implements_net_Error e = False"

fun Timeout :: "go_error \<Rightarrow> bool" where
  "Timeout DeadlineExceeded = True"
| "Timeout (OpError msg t) = t"
| "Timeout (UrlError opn url e) = (implements_net_Error e \<and> Timeout e)"
| "Timeout e = False"

text \<open>
  \<open>errors.Is(err, target)\<close> for a sentinel target: \<open>err\<close>, or an error reached from
  it by unwrapping, equals the target.
\<close>

fun errors_Is :: "go_error \<Rightarrow> go_error \<Rightarrow> bool" where
  "errors_Is (WrapError p e) target = (WrapError p e = target \<or> errors_Is e target)"
| "errors_Is (UrlError opn url e) target = (UrlError opn url e = target \<or> errors_Is e target)"
| "errors_Is e target = (e = target)"

text \<open>
  \<open>errors.As(err, &netErr)\<close> with \<open>netErr\<close> of the interface type \<open>net.Error\<close>: the
  first error of the chain whose type satisfies the interface.
\<close>

fun errors_As_net_Error :: "go_error \<Rightarrow> go_error option" where
  "errors_As_net_Error (WrapError p e) = errors_As_net_Error e"
| "errors_As_net_Error (UrlError opn url e) = Some (UrlError opn url e)"
| "errors_As_net_Error e = (if implements_net_Error e then Some e else None)"

section \<open>The response envelope and the error classifier\<close>

type_synonym Duration = int

record MessageResult =
  MessageID :: int

text \<open>
  The raw \<open>Result\<close> of an envelope is read in one way only, by
  \<open>json.Unmarshal\<close> into a \<open>MessageResult\<close>; it is represented by the outcome of that
  call.  An absent result does not parse.
\<close>

type_synonym RawMessage = "go_error + MessageResult"

definition nil_RawMessage :: RawMessage where
  "nil_RawMessage = Inl (ErrorString ''unexpected end of JSON input'')"

record TelegramResponse =
  OK :: bool
  Result :: RawMessage
  ErrorCode :: int
  Description :: string
  RetryAfter :: Duration

text \<open>
  \<open>extractTelegramError\<close> inspects only the text of the error.  A \<open>nil\<close> result is
  \<open>None\<close>.
\<close>

definition extractTelegramError :: "go_error \<Rightarrow> TelegramResponse option" where
  "extractTelegramError err =
     (let errMsg = Error err in
      if strings_Contains errMsg ''telegram API error'' then
        if strings_Contains errMsg ''403'' then
          Some \<lparr>OK = False, Result = nil_RawMessage, ErrorCode = 403, Description = ''Forbidden'',
                RetryAfter = 0\<rparr>
        else if strings_Contains errMsg ''429'' then
          Some \<lparr>OK = False, Result = nil_RawMessage, ErrorCode = 429,
                Description = ''Too Many Requests'', RetryAfter = 0\<rparr>
        else if strings_Contains errMsg ''500'' \<or> strings_Contains errMsg ''502'' \<or>
                strings_Contains errMsg ''503'' \<or> strings_Contains errMsg ''504'' then
          Some \<lparr>OK = False, Result = nil_RawMessage, ErrorCode = 500, Description = ''Server Error'',
                RetryAfter = 0\<rparr>
        else None
      else None)"

definition isRetryable :: "go_error \<Rightarrow> bool" where
  "isRetryable err =
     (if (case errors_As_net_Error err of Some netErr \<Rightarrow> Timeout netErr | None \<Rightarrow> False)
      then True
      else if errors_Is err DeadlineExceeded \<or> errors_Is err Canceled then False
      else (case extractTelegramError err of
              Some telegramErr \<Rightarrow>
                (let code = ErrorCode telegramErr
                 in code = 429 \<or> code \<ge> 500 \<and> code \<le> 504)
            | None \<Rightarrow> False))"

text \<open>
  The error \<open>sendMessageOnce\<close> makes of an envelope whose \<open>OK\<close> is false:
  \<open>fmt.Errorf("telegram API error: %d %s", ErrorCode, Description)\<close>.
\<close>

definition api_error :: "TelegramResponse \<Rightarrow> go_error" where
  "api_error r =
     ErrorString (''telegram API error: '' @ strconv_Itoa (ErrorCode r) @ '' '' @ Description r)"

section \<open>Floating-point numbers\<close>

text \<open>
  A \<open>float64\<close> is a number, an infinity or NaN.  The numbers that arithmetic returns
  are those of IEEE 754 binary64: \<open>round64\<close> rounds a real to the nearest of them, a
  tie to the one with the even significand, with gradual underflow below
  \<open>2 powi (- 1022)\<close> and infinity from \<open>2 ^ 1024\<close> on; \<open>ilog2 x\<close> is the exponent of the
  power of two at or below a positive \<open>x\<close>.  The sign of a zero is not kept: no
  operation of the program tells the two zeros apart.
\<close>

datatype float64 = Finite real | PosInf | NegInf | NaN

function ilog2 :: "real \<Rightarrow> int" where
  "ilog2 x =
     (if x \<le> 0 then 0
      else if 2 \<le> x then ilog2 (x / 2) + 1
      else if x < 1 then ilog2 (x * 2) - 1
      else 0)"
  by pat_completeness auto
termination
proof (relation "measure (\<lambda>x. nat \<bar>\<lfloor>log 2 x\<rfloor>\<bar>)")
  show "wf (measure (\<lambda>x. nat \<bar>\<lfloor>log 2 x\<rfloor>\<bar>))" by simp
next
  fix x :: real
  assume "\<not> x \<le> 0" "2 \<le> x"
  then have "log 2 (x / 2) = log 2 x - 1" "1 \<le> log 2 x"
    by (simp_all add: log_divide)
  then have e: "\<lfloor>log 2 (x / 2)\<rfloor> = \<lfloor>log 2 x\<rfloor> - 1" and f: "1 \<le> \<lfloor>log 2 x\<rfloor>"
    by (simp_all add: le_floor_iff)
  show "(x / 2, x) \<in> measure (\<lambda>x. nat \<bar>\<lfloor>log 2 x\<rfloor>\<bar>)"
    using f by (simp only: in_measure e)
next
  fix x :: real
  assume "\<not> x \<le> 0" "\<not> 2 \<le> x" "x < 1"
  then have "log 2 (x * 2) = log 2 x + 1" "log 2 x < 0"
    by (simp_all add: log_mult)
  then have e: "\<lfloor>log 2 (x * 2)\<rfloor> = \<lfloor>log 2 x\<rfloor> + 1" and f: "\<lfloor>log 2 x\<rfloor> < 0"
    by (simp_all add: floor_less_iff)
  show "(x * 2, x) \<in> measure (\<lambda>x. nat \<bar>\<lfloor>log 2 x\<rfloor>\<bar>)"
    using f by (simp only: in_measure e)
qed

declare ilog2.simps [simp del]

definition round_half_even :: "real \<Rightarrow> int" where
  "round_half_even y =
     (let f = \<lfloor>y\<rfloor>; d = y - of_int f
      in if d < 1 / 2 then f else if 1 / 2 < d then f + 1 else if even f then f else f + 1)"

definition round64 :: "real \<Rightarrow> float64" where
  "round64 x =
     (if x = 0 then Finite 0
      else (let e = max (ilog2 \<bar>x\<bar> - 52) (- 1074);
                r = of_int (round_half_even (x / 2 powi e)) * 2 powi e
            in if 2 ^ 1024 \<le> \<bar>r\<bar> then (if 0 < x then PosInf else NegInf) else Finite r))"


text \<open>
  The operations the program uses: the product and the sum (the exact result,
  rounded), the comparisons, the conversion of an \<open>int64\<close> to a \<open>float64\<close> and back.
  The conversion to \<open>int64\<close> discards the fraction; outside the range of \<open>int64\<close>,
  and for NaN, the language leaves the result to the implementation, and it is the
  smallest \<open>int64\<close> on amd64.
\<close>

definition trunc :: "real \<Rightarrow> int" where
  "trunc x = (if x \<ge> 0 then \<lfloor>x\<rfloor> else \<lceil>x\<rceil>)"

fun float64_to_int64 :: "float64 \<Rightarrow> int" where
  "float64_to_int64 (Finite x) =
     (if - (2 ^ 63) \<le> trunc x \<and> trunc x < 2 ^ 63 then trunc x else - (2 ^ 63))"
| "float64_to_int64 PosInf = - (2 ^ 63)"
| "float64_to_int64 NegInf = - (2 ^ 63)"
| "float64_to_int64 NaN = - (2 ^ 63)"

definition float64_of_int64 :: "int \<Rightarrow> float64" where
  "float64_of_int64 i = round64 (real_of_int i)"

fun float64_mul :: "float64 \<Rightarrow> float64 \<Rightarrow> float64" where
  "float64_mul (Finite a) (Finite b) = round64 (a * b)"
| "float64_mul NaN y = NaN"
| "float64_mul x NaN = NaN"
| "float64_mul (Finite a) PosInf = (if a = 0 then NaN else if 0 < a then PosInf else NegInf)"
| "float64_mul (Finite a) NegInf = (if a = 0 then NaN else if 0 < a then NegInf else PosInf)"
| "float64_mul PosInf (Finite b) = (if b = 0 then NaN else if 0 < b then PosInf else NegInf)"
| "float64_mul NegInf (Finite b) = (if b = 0 then NaN else if 0 < b then NegInf else PosInf)"
| "float64_mul PosInf PosInf = PosInf"
| "float64_mul PosInf NegInf = NegInf"
| "float64_mul NegInf PosInf = NegInf"
| "float64_mul NegInf NegInf = PosInf"

fun float64_add :: "float64 \<Rightarrow> float64 \<Rightarrow> float64" where
  "float64_add (Finite a) (Finite b) = round64 (a + b)"
| "float64_add NaN y = NaN"
| "float64_add x NaN = NaN"
| "float64_add PosInf NegInf = NaN"
| "float64_add NegInf PosInf = NaN"
| "float64_add PosInf y = PosInf"
| "float64_add NegInf y = NegInf"
| "float64_add x PosInf = PosInf"
| "float64_add x NegInf = NegInf"

text \<open>\<open>x <= y\<close> and \<open>x < y\<close>: every comparison with NaN is false.\<close>

fun float64_le :: "float64 \<Rightarrow> float64 \<Rightarrow> bool" where
  "float64_le (Finite a) (Finite b) = (a \<le> b)"
| "float64_le NaN y = False"
| "float64_le x NaN = False"
| "float64_le NegInf y = True"
| "float64_le x PosInf = True"
| "float64_le PosInf y = False"
| "float64_le x NegInf = False"

fun float64_lt :: "float64 \<Rightarrow> float64 \<Rightarrow> bool" where
  "float64_lt (Finite a) (Finite b) = (a < b)"
| "float64_lt NaN y = False"
| "float64_lt x NaN = False"
| "float64_lt PosInf y = False"
| "float64_lt x NegInf = False"
| "float64_lt NegInf y = True"
| "float64_lt x PosInf = True"

section \<open>Configuration and its validation\<close>

text \<open>
  \<open>time.Duration\<close> is a count of nanoseconds in an \<open>int64\<close>; \<open>uint32\<close> is
  \<open>32 word\<close>.  \<open>LoadConfig\<close> reads the two \<open>float64\<close> fields with
  \<open>strconv.ParseFloat\<close>, which also accepts the texts \<open>NaN\<close> and \<open>Inf\<close>.
\<close>

record Config =
  BotToken :: string
  BaseURL :: string
  RequestTimeout :: Duration
  KeepAlive :: Duration
  MaxIdleConns :: int
  IdleConnTimeout :: Duration
  RateLimitRequests :: float64
  RateLimitBurst :: int
  BreakerMaxRequests :: "32 word"
  BreakerInterval :: Duration
  BreakerTimeout :: Duration
  MaxRetries :: int
  RetryInitialBackoff :: Duration
  RetryMaxBackoff :: Duration
  RetryBackoffFactor :: float64
  LogFilePath :: string

text \<open>\<open>strings.Split(s, sep)\<close> for a separator of one byte.\<close>

fun strings_Split :: "string \<Rightarrow> char \<Rightarrow> string list" where
  "strings_Split [] sep = [[]]"
| "strings_Split (x # xs) sep =
     (if x = sep then [] # strings_Split xs sep
      else (case strings_Split xs sep of
              p # ps \<Rightarrow> (x # p) # ps
            | [] \<Rightarrow> [[x]]))"

text \<open>
  \<open>strconv.ParseInt(s, 10, 64)\<close> and \<open>strconv.Atoi\<close>: an optional sign, then one or
  more decimal digits, and the value must fit an \<open>int64\<close>.  An error is \<open>None\<close>.
\<close>

definition is_digit :: "char \<Rightarrow> bool" where
  "is_digit c = (48 \<le> (of_char c :: nat) \<and> (of_char c :: nat) \<le> 57)"

fun digits_value :: "int \<Rightarrow> string \<Rightarrow> int option" where
  "digits_value acc [] = Some acc"
| "digits_value acc (c # cs) =
     (if is_digit c then digits_value (10 * acc + (of_char c - 48)) cs else None)"

definition strconv_ParseInt :: "string \<Rightarrow> int option" where
  "strconv_ParseInt s =
     (case s of
        [] \<Rightarrow> None
      | c # cs \<Rightarrow>
          (let neg = (c = CHR ''-'');
               ds = (if c = CHR ''+'' \<or> c = CHR ''-'' then cs else s)
           in if ds = [] then None
              else (case digits_value 0 ds of
                      None \<Rightarrow> None
                    | Some un \<Rightarrow>
                        if \<not> neg \<and> un \<ge> 2 ^ 63 then None
                        else if neg \<and> un > 2 ^ 63 then None
                        else Some (if neg then - un else un))))"

definition validateBotToken :: "string \<Rightarrow> bool" where
  "validateBotToken token =
     (if length token < 10 \<or> \<not> strings_Contains token '':'' then False
      else (let parts = strings_Split token CHR '':'' in
            if length parts \<noteq> 2 then False
            else if strconv_ParseInt (parts ! 0) = None then False
            else if length (parts ! 1) < 30 then False
            else True))"

text \<open>\<open>ValidateConfig\<close>: the first case of the switch that holds decides; \<open>nil\<close> is \<open>None\<close>.\<close>

definition ValidateConfig :: "Config \<Rightarrow> go_error option" where
  "ValidateConfig cfg =
     (if BotToken cfg = [] then Some (ErrorString ''BOT_TOKEN must be set'')
      else if \<not> validateBotToken (BotToken cfg) then
        Some (ErrorString ''BOT_TOKEN format is invalid'')
      else if LogFilePath cfg = [] then Some (ErrorString ''LOG_FILE_PATH must be set'')
      else if BaseURL cfg = [] then Some (ErrorString ''BASE_URL must be set'')
      else if RequestTimeout cfg \<le> 0 then
        Some (ErrorString ''REQUEST_TIMEOUT must be positive'')
      else if RetryInitialBackoff cfg \<le> 0 then
        Some (ErrorString ''RETRY_INITIAL_BACKOFF must be positive'')
      else if RetryMaxBackoff cfg \<le> 0 then
        Some (ErrorString ''RETRY_MAX_BACKOFF must be positive'')
      else if float64_le (RetryBackoffFactor cfg) (Finite 0) then
        Some (ErrorString ''RETRY_BACKOFF_FACTOR must be positive'')
      else if MaxRetries cfg < 0 then
        Some (ErrorString ''MAX_RETRIES must be non-negative'')
      else None)"

section \<open>The backoff calculator\<close>

text \<open>
  \<open>int64\<close> arithmetic wraps around, and Go's \<open>%\<close> truncates towards zero.
  \<open>math.Pow\<close> is a function of the standard library: what it returns is a parameter
  of the model, the first argument of the two functions below.  The constants \<open>0.8\<close>
  and \<open>0.4\<close> of the code are the \<open>float64\<close> values nearest to them.
\<close>

definition wrap64 :: "int \<Rightarrow> int" where
  "wrap64 x = (x + 2 ^ 63) mod 2 ^ 64 - 2 ^ 63"

definition go_rem :: "int \<Rightarrow> int \<Rightarrow> int" where
  "go_rem a b = sgn a * (\<bar>a\<bar> mod \<bar>b\<bar>)"

text \<open>
  \<open>calculateBackoff\<close> in two steps: \<open>cappedBackoff\<close> is the value of the variable
  \<open>backoff\<close> after the comparison with \<open>RetryMaxBackoff\<close>, and \<open>calculateBackoff\<close>
  scales it by the jitter factor.
\<close>

definition cappedBackoff :: "(float64 \<Rightarrow> float64 \<Rightarrow> float64) \<Rightarrow> Config \<Rightarrow> int \<Rightarrow> Duration" where
  "cappedBackoff math_Pow cfg attempt =
     (let backoff = wrap64 (RetryInitialBackoff cfg *
                      float64_to_int64
                        (math_Pow (RetryBackoffFactor cfg) (float64_of_int64 (attempt - 1))))
      in if backoff > RetryMaxBackoff cfg then RetryMaxBackoff cfg else backoff)"

definition calculateBackoff :: "(float64 \<Rightarrow> float64 \<Rightarrow> float64) \<Rightarrow> Config \<Rightarrow> int \<Rightarrow> Duration" where
  "calculateBackoff math_Pow cfg attempt =
     (let backoff = cappedBackoff math_Pow cfg attempt;
          jitter = float64_to_int64
                     (float64_mul (float64_of_int64 backoff)
                        (float64_add (round64 0.8)
                           (float64_mul (round64 0.4) (float64_of_int64 (go_rem attempt 2)))))
      in jitter)"

section \<open>Log events\<close>

text \<open>
  The logger is an observer: every call of it appends one event.  An attribute that
  the code renders with \<open>Duration.String()\<close> is kept as the duration itself.
\<close>

datatype Level = LevelInfo | LevelWarn | LevelError

datatype attr = AString string | AInt int | ABool bool | AError go_error | ADuration Duration

type_synonym LogEvent = "Level \<times> string \<times> (string \<times> attr) list"

section \<open>The circuit breaker\<close>

text \<open>
  The breaker is the library \<open>sony/gobreaker\<close>, configured by \<open>NewTelegramAPI\<close> with
  the \<open>ReadyToTrip\<close> and \<open>OnStateChange\<close> functions below.  Its \<open>Execute\<close> is modelled
  after the library: \<open>beforeRequest\<close> rejects in the open state and counts the request
  otherwise, the request function runs, and \<open>afterRequest\<close> counts a success exactly
  when the request function returned a nil error.  The clock is an input (\<open>now\<close>), a
  zero \<open>time.Time\<close> is \<open>None\<close>.
\<close>

datatype State = StateClosed | StateHalfOpen | StateOpen

fun State_String :: "State \<Rightarrow> string" where
  "State_String StateClosed = ''closed''"
| "State_String StateHalfOpen = ''half-open''"
| "State_String StateOpen = ''open''"

record Counts =
  Requests :: "32 word"
  TotalSuccesses :: "32 word"
  TotalFailures :: "32 word"
  ConsecutiveSuccesses :: "32 word"
  ConsecutiveFailures :: "32 word"

definition Counts_clear :: Counts where
  "Counts_clear = \<lparr>Requests = 0, TotalSuccesses = 0, TotalFailures = 0,
     ConsecutiveSuccesses = 0, ConsecutiveFailures = 0\<rparr>"

definition Counts_onRequest :: "Counts \<Rightarrow> Counts" where
  "Counts_onRequest c = c\<lparr>Requests := Requests c + 1\<rparr>"

definition Counts_onSuccess :: "Counts \<Rightarrow> Counts" where
  "Counts_onSuccess c = c\<lparr>TotalSuccesses := TotalSuccesses c + 1,
     ConsecutiveSuccesses := ConsecutiveSuccesses c + 1, ConsecutiveFailures := 0\<rparr>"

definition Counts_onFailure :: "Counts \<Rightarrow> Counts" where
  "Counts_onFailure c = c\<lparr>TotalFailures := TotalFailures c + 1,
     ConsecutiveFailures := ConsecutiveFailures c + 1, ConsecutiveSuccesses := 0\<rparr>"

record CircuitBreaker =
  cb_maxRequests :: "32 word"
  cb_interval :: Duration
  cb_timeout :: Duration
  cb_state :: State
  cb_generation :: "64 word"
  cb_counts :: Counts
  cb_expiry :: "int option"

text \<open>The two callbacks \<open>NewTelegramAPI\<close> installs.\<close>

definition ReadyToTrip :: "Counts \<Rightarrow> bool" where
  "ReadyToTrip c =
     (unat (Requests c) > 5 \<and>
      real (unat (TotalFailures c)) / real (unat (Requests c)) \<ge> 0.5)"

definition OnStateChange :: "State \<Rightarrow> State \<Rightarrow> LogEvent" where
  "OnStateChange from to =
     (LevelInfo, ''circuit breaker state changed'',
      [(''name'', AString ''TelegramAPICircuitBreaker''),
       (''from'', AString (State_String from)),
       (''to'', AString (State_String to))])"

definition toNewGeneration :: "CircuitBreaker \<Rightarrow> int \<Rightarrow> CircuitBreaker" where
  "toNewGeneration cb now =
     cb\<lparr>cb_generation := cb_generation cb + 1,
        cb_counts := Counts_clear,
        cb_expiry :=
          (case cb_state cb of
             StateClosed \<Rightarrow> if cb_interval cb = 0 then None else Some (now + cb_interval cb)
           | StateOpen \<Rightarrow> Some (now + cb_timeout cb)
           | StateHalfOpen \<Rightarrow> None)\<rparr>"

definition setState :: "CircuitBreaker \<Rightarrow> State \<Rightarrow> int \<Rightarrow> CircuitBreaker \<times> LogEvent list" where
  "setState cb st now =
     (if cb_state cb = st then (cb, [])
      else (toNewGeneration (cb\<lparr>cb_state := st\<rparr>) now, [OnStateChange (cb_state cb) st]))"

definition expiry_Before :: "int option \<Rightarrow> int \<Rightarrow> bool" where
  "expiry_Before e now = (case e of None \<Rightarrow> True | Some t \<Rightarrow> t < now)"

definition currentState :: "CircuitBreaker \<Rightarrow> int \<Rightarrow> CircuitBreaker \<times> LogEvent list" where
  "currentState cb now =
     (case cb_state cb of
        StateClosed \<Rightarrow>
          if cb_expiry cb \<noteq> None \<and> expiry_Before (cb_expiry cb) now
          then (toNewGeneration cb now, []) else (cb, [])
      | StateOpen \<Rightarrow>
          if expiry_Before (cb_expiry cb) now then setState cb StateHalfOpen now else (cb, [])
      | StateHalfOpen \<Rightarrow> (cb, []))"

definition beforeRequest ::
  "CircuitBreaker \<Rightarrow> int \<Rightarrow> (go_error + 64 word) \<times> CircuitBreaker \<times> LogEvent list" where
  "beforeRequest cb now =
     (let (cb1, evs) = currentState cb now in
      if cb_state cb1 = StateOpen then (Inl ErrOpenState, cb1, evs)
      else if cb_state cb1 = StateHalfOpen \<and> Requests (cb_counts cb1) \<ge> cb_maxRequests cb1
      then (Inl ErrTooManyRequests, cb1, evs)
      else (Inr (cb_generation cb1), cb1\<lparr>cb_counts := Counts_onRequest (cb_counts cb1)\<rparr>, evs))"

definition onSuccess :: "CircuitBreaker \<Rightarrow> State \<Rightarrow> int \<Rightarrow> CircuitBreaker \<times> LogEvent list" where
  "onSuccess cb st now =
     (case st of
        StateClosed \<Rightarrow> (cb\<lparr>cb_counts := Counts_onSuccess (cb_counts cb)\<rparr>, [])
      | StateHalfOpen \<Rightarrow>
          (let cb1 = cb\<lparr>cb_counts := Counts_onSuccess (cb_counts cb)\<rparr> in
           if ConsecutiveSuccesses (cb_counts cb1) \<ge> cb_maxRequests cb1
           then setState cb1 StateClosed now else (cb1, []))
      | StateOpen \<Rightarrow> (cb, []))"

definition onFailure :: "CircuitBreaker \<Rightarrow> State \<Rightarrow> int \<Rightarrow> CircuitBreaker \<times> LogEvent list" where
  "onFailure cb st now =
     (case st of
        StateClosed \<Rightarrow>
          (let cb1 = cb\<lparr>cb_counts := Counts_onFailure (cb_counts cb)\<rparr> in
           if ReadyToTrip (cb_counts cb1) then setState cb1 StateOpen now else (cb1, []))
      | StateHalfOpen \<Rightarrow> setState cb StateOpen now
      | StateOpen \<Rightarrow> (cb, []))"

definition afterRequest ::
  "CircuitBreaker \<Rightarrow> 64 word \<Rightarrow> bool \<Rightarrow> int \<Rightarrow> CircuitBreaker \<times> LogEvent list" where
  "afterRequest cb before_gen success now =
     (let (cb1, evs) = currentState cb now in
      if cb_generation cb1 \<noteq> before_gen then (cb1, evs)
      else (let (cb2, evs2) = (if success then onSuccess cb1 (cb_state cb1) now
                               else onFailure cb1 (cb_state cb1) now)
            in (cb2, evs @ evs2)))"

text \<open>
  \<open>Execute\<close> takes the outcome of the request function with the events it logs; they
  count only when the breaker lets the request through.
\<close>

definition Execute ::
  "CircuitBreaker \<Rightarrow> int \<Rightarrow> int \<Rightarrow> (go_error + 'a) \<times> LogEvent list
     \<Rightarrow> (go_error + 'a) \<times> CircuitBreaker \<times> LogEvent list" where
  "Execute cb now0 now1 req =
     (case beforeRequest cb now0 of
        (Inl err, cb1, evs) \<Rightarrow> (Inl err, cb1, evs)
      | (Inr gen, cb1, evs) \<Rightarrow>
          (let (res, evs1) = req;
               (cb2, evs2) = afterRequest cb1 gen (case res of Inl err \<Rightarrow> False | Inr r \<Rightarrow> True) now1
           in (res, cb2, evs @ evs1 @ evs2)))"

section \<open>The request executor\<close>

text \<open>
  One call of \<open>executeRequest\<close> makes five library calls in order; what they return
  is the input \<open>io_outcome\<close> of the model:
  \<^item> \<open>MarshalFails e\<close>: \<open>json.Marshal\<close> returns the error \<open>e\<close>;
  \<^item> \<open>NewRequestFails e\<close>: \<open>http.NewRequestWithContext\<close> cannot parse the URL; the
    error it returns is the \<open>*url.Error\<close> of \<open>url.Parse\<close>, with the operation
    \<open>parse\<close>, the URL it was given and the cause \<open>e\<close>;
  \<^item> \<open>DoFails e\<close>: \<open>httpClient.Do\<close> fails; the error it returns is always a
    \<open>*url.Error\<close> with the operation \<open>Post\<close>, the URL of the request and the cause
    \<open>e\<close>;
  \<^item> \<open>ReadFails e\<close>: \<open>io.ReadAll\<close> of the body returns the error \<open>e\<close>;
  \<^item> \<open>Responds r\<close>: the body was read; \<open>r\<close> has the status code, the value of the
    \<open>Retry-After\<close> header (empty when absent) and the outcome of \<open>json.Unmarshal\<close>
    of the body: an error, or the four fields that the JSON can set (\<open>RetryAfter\<close>
    is tagged \<open>json:"-"\<close> and stays zero).
\<close>

record json_envelope =
  j_ok :: bool
  j_result :: RawMessage
  j_error_code :: int
  j_description :: string

record http_response =
  r_StatusCode :: int
  r_RetryAfter :: string
  r_Body :: "go_error + json_envelope"

datatype io_outcome =
    MarshalFails go_error
  | NewRequestFails go_error
  | DoFails go_error
  | ReadFails go_error
  | Responds http_response

definition Second :: Duration where
  "Second = 1000000000"

definition request_url :: "Config \<Rightarrow> string \<Rightarrow> string" where
  "request_url cfg method = BaseURL cfg @ ''/bot'' @ BotToken cfg @ ''/'' @ method"

definition redacted_url :: "Config \<Rightarrow> string \<Rightarrow> string" where
  "redacted_url cfg method = BaseURL cfg @ ''/bot[REDACTED]/'' @ method"

definition executeRequest ::
  "Config \<Rightarrow> string \<Rightarrow> io_outcome \<Rightarrow> (go_error + TelegramResponse) \<times> LogEvent list" where
  "executeRequest cfg method io =
     (let url = request_url cfg method;
          redactedURL = redacted_url cfg method
      in case io of
           MarshalFails err \<Rightarrow> (Inl (WrapError ''failed to marshal request: '' err), [])
         | NewRequestFails cause \<Rightarrow>
             (Inl (WrapError (''failed to create request to '' @ redactedURL @ '': '')
                     (UrlError ''parse'' url cause)), [])
         | DoFails cause \<Rightarrow>
             (Inl (WrapError ''request failed: '' (UrlError ''Post'' url cause)), [])
         | ReadFails err \<Rightarrow> (Inl (WrapError ''failed to read response: '' err), [])
         | Responds resp \<Rightarrow>
             (case r_Body resp of
                Inl err \<Rightarrow> (Inl (WrapError ''failed to parse response: '' err), [])
              | Inr j \<Rightarrow>
                  (let telegramResp = \<lparr>OK = j_ok j, Result = j_result j,
                         ErrorCode = j_error_code j, Description = j_description j,
                         RetryAfter = 0\<rparr>
                   in if \<not> OK telegramResp then
                        (let retryAfter = r_RetryAfter resp;
                             ev = (LevelError, ''telegram API error'',
                                   [(''method'', AString method),
                                    (''url'', AString redactedURL),
                                    (''status_code'', AInt (r_StatusCode resp)),
                                    (''error_code'', AInt (ErrorCode telegramResp)),
                                    (''description'', AString (Description telegramResp)),
                                    (''retry_after'', AString retryAfter)])
                         in if ErrorCode telegramResp = 429 \<and> retryAfter \<noteq> [] then
                              (case strconv_ParseInt retryAfter of
                                 Some seconds \<Rightarrow>
                                   (Inr (telegramResp\<lparr>RetryAfter := wrap64 (seconds * Second)\<rparr>),
                                    [ev])
                               | None \<Rightarrow> (Inr telegramResp, [ev]))
                            else (Inr telegramResp, [ev]))
                      else (Inr telegramResp, []))))"

section \<open>The orchestrator\<close>

text \<open>
  What the surroundings do during one attempt: the rate limiter's \<open>Wait\<close> (\<open>None\<close>
  admits), the clock at the two points where the breaker reads it, the outcome of the
  HTTP round trip, which case of the final \<open>select\<close> fires (\<open>Some e\<close>: the
  context is done first and \<open>ctx.Err()\<close> is \<open>e\<close>; \<open>None\<close>: the timer), and the
  function \<open>math.Pow\<close> of the library.
\<close>

record AttemptEnv =
  e_limiter :: "go_error option"
  e_now0 :: int
  e_io :: io_outcome
  e_now1 :: int
  e_ctx_done :: "go_error option"
  e_Pow :: "float64 \<Rightarrow> float64 \<Rightarrow> float64"

text \<open>
  The state of a \<open>TelegramAPI\<close> that a send changes, and what a send does that can
  be observed: the breaker, the events logged, the waits started, and the number of
  attempts made (calls of \<open>sendMessageOnce\<close>).
\<close>

record World =
  w_breaker :: CircuitBreaker
  w_logs :: "LogEvent list"
  w_waits :: "Duration list"
  w_attempts :: nat

definition sendMessageOnce ::
  "Config \<Rightarrow> AttemptEnv \<Rightarrow> World \<Rightarrow> (go_error + MessageResult) \<times> World" where
  "sendMessageOnce cfg env w =
     (case e_limiter env of
        Some err \<Rightarrow> (Inl (WrapError ''rate limit exceeded: '' err), w)
      | None \<Rightarrow>
          (let (resp, cb, evs) = Execute (w_breaker w) (e_now0 env) (e_now1 env)
                                   (executeRequest cfg ''sendMessage'' (e_io env));
               w1 = w\<lparr>w_breaker := cb, w_logs := w_logs w @ evs\<rparr>
           in case resp of
                Inl err \<Rightarrow> (Inl err, w1)
              | Inr telegramResp \<Rightarrow>
                  if \<not> OK telegramResp then (Inl (api_error telegramResp), w1)
                  else (case Result telegramResp of
                          Inl err \<Rightarrow> (Inl (WrapError ''failed to parse result: '' err), w1)
                        | Inr msgResult \<Rightarrow> (Inr msgResult, w1))))"

text \<open>
  \<open>errors.As(err, &telegramErr)\<close> with \<open>telegramErr\<close> of type \<open>*TelegramResponse\<close>.
  \<open>errors.As\<close> panics when the type of the target is neither an interface nor a type
  that implements \<open>error\<close>; \<open>*TelegramResponse\<close> has no \<open>Error\<close> method, and the
  error passed is not nil, so the call panics whatever the error is.
\<close>

datatype 'a outcome = Returns 'a | Panics string

definition errors_As_TelegramResponse :: "go_error \<Rightarrow> TelegramResponse option outcome" where
  "errors_As_TelegramResponse err =
     Panics ''errors: *target must be interface or implement error''"

function sendLoop ::
  "Config \<Rightarrow> (nat \<Rightarrow> AttemptEnv) \<Rightarrow> int \<Rightarrow> World
     \<Rightarrow> (go_error + MessageResult) outcome \<times> World" where
  "sendLoop cfg env attempt w =
     (if attempt \<le> MaxRetries cfg then
        (case sendMessageOnce cfg (env (nat attempt)) (w\<lparr>w_attempts := w_attempts w + 1\<rparr>) of
           (Inr result, w1) \<Rightarrow> (Returns (Inr result), w1)
         | (Inl err, w1) \<Rightarrow>
             if attempt = MaxRetries cfg then
               (Returns (Inl (WrapError ''max retries exceeded: '' err)), w1)
             else if \<not> isRetryable err then
               (Returns (Inl err),
                w1\<lparr>w_logs := w_logs w1 @
                   [(LevelError, ''non-retryable error'',
                     [(''error'', AError err), (''attempt'', AInt attempt)])]\<rparr>)
             else
               (case errors_As_TelegramResponse err of
                  Panics msg \<Rightarrow> (Panics msg, w1)
                | Returns found \<Rightarrow>
                    (let serverRetryDelay =
                           (case found of
                              Some telegramErr \<Rightarrow>
                                if RetryAfter telegramErr > 0 then RetryAfter telegramErr else 0
                            | None \<Rightarrow> 0);
                         w2 = (if serverRetryDelay > 0 then
                                 w1\<lparr>w_logs := w_logs w1 @
                                    [(LevelWarn, ''received rate limit response'',
                                      [(''retry_after'', ADuration serverRetryDelay),
                                       (''attempt'', AInt attempt)])]\<rparr>
                               else w1);
                         backoff = (if serverRetryDelay > 0 then serverRetryDelay
                                    else calculateBackoff (e_Pow (env (nat attempt))) cfg
                                           (attempt + 1));
                         w3 = w2\<lparr>w_logs := w_logs w2 @
                                 [(LevelInfo, ''retrying request'',
                                   [(''attempt'', AInt (attempt + 1)),
                                    (''backoff'', ADuration backoff),
                                    (''using_server_delay'', ABool (serverRetryDelay > 0))])],
                               w_waits := w_waits w2 @ [backoff]\<rparr>
                     in case e_ctx_done (env (nat attempt)) of
                          Some ctxErr \<Rightarrow> (Returns (Inl ctxErr), w3)
                        | None \<Rightarrow> sendLoop cfg env (attempt + 1) w3)))
      else (Returns (Inl (WrapError ''max retries exceeded: '' (ErrorString ''%!w(<nil>)''))), w))"
  by pat_completeness auto
termination
  by (relation "measure (\<lambda>(cfg, env, attempt, w). nat (MaxRetries cfg + 1 - attempt))") auto

declare sendLoop.simps [simp del]

definition SendMessage ::
  "Config \<Rightarrow> (nat \<Rightarrow> AttemptEnv) \<Rightarrow> World \<Rightarrow> (go_error + MessageResult) outcome \<times> World" where
  "SendMessage cfg env w =
     (case ValidateConfig cfg of
        Some err \<Rightarrow> (Returns (Inl (WrapError ''config validation failed: '' err)), w)
      | None \<Rightarrow> sendLoop cfg env 0 w)"

section \<open>Concrete inputs\<close>

text \<open>
  The configuration \<open>LoadConfig\<close> builds when only \<open>BOT_TOKEN\<close> is set, a breaker as
  \<open>NewTelegramAPI\<close> leaves it (closed, nothing counted), and surroundings that admit
  every attempt and answer each one in the same way.
\<close>

definition example_config :: Config where
  "example_config =
     \<lparr>BotToken = ''123456789:ABCDefGhIJKlmNoPQRsTUVwxyZ0123456789'',
      BaseURL = ''https://api.telegram.org'',
      RequestTimeout = 10 * Second, KeepAlive = 30 * Second, MaxIdleConns = 10,
      IdleConnTimeout = 90 * Second, RateLimitRequests = Finite 10,
      RateLimitBurst = 20,
      BreakerMaxRequests = 5, BreakerInterval = 120 * Second, BreakerTimeout = 60 * Second,
      MaxRetries = 3, RetryInitialBackoff = 100000000, RetryMaxBackoff = 10 * Second,
      RetryBackoffFactor = Finite 2, LogFilePath = ''logs/telegramsender.log''\<rparr>"

definition example_breaker :: CircuitBreaker where
  "example_breaker =
     \<lparr>cb_maxRequests = 5, cb_interval = 120 * Second, cb_timeout = 60 * Second,
      cb_state = StateClosed, cb_generation = 1, cb_counts = Counts_clear,
      cb_expiry = Some (120 * Second)\<rparr>"

definition example_world :: World where
  "example_world = \<lparr>w_breaker = example_breaker, w_logs = [], w_waits = [], w_attempts = 0\<rparr>"

text \<open>
  The power with a whole exponent that is not negative, rounded once: what
  \<open>math.Pow\<close> returns wherever that power is itself a \<open>float64\<close>, as are the powers
  of two that the examples use.
\<close>

definition example_pow :: "float64 \<Rightarrow> float64 \<Rightarrow> float64" where
  "example_pow x y =
     (case (x, y) of
        (Finite a, Finite b) \<Rightarrow>
          if 0 \<le> b \<and> real_of_int \<lfloor>b\<rfloor> = b then round64 (a ^ nat \<lfloor>b\<rfloor>) else NaN
      | _ \<Rightarrow> NaN)"

definition example_env :: "io_outcome \<Rightarrow> go_error option \<Rightarrow> nat \<Rightarrow> AttemptEnv" where
  "example_env io ctx_done =
     (\<lambda>i. \<lparr>e_limiter = None, e_now0 = Second, e_io = io, e_now1 = 2 * Second,
           e_ctx_done = ctx_done, e_Pow = example_pow\<rparr>)"

definition api_failure :: "int \<Rightarrow> string \<Rightarrow> string \<Rightarrow> http_response" where
  "api_failure code description retry_after =
     \<lparr>r_StatusCode = code, r_RetryAfter = retry_after,
      r_Body = Inr \<lparr>j_ok = False, j_result = nil_RawMessage, j_error_code = code,
                    j_description = description\<rparr>\<rparr>"

text \<open>
  A refused connection, the error \<open>SendMessage\<close> makes of it, and two answers of
  the API: a rate limit with \<open>Retry-After: 5\<close> and a 503.
\<close>

definition refused :: go_error where
  "refused = OpError ''dial tcp 149.154.167.220:443: connect: connection refused'' False"

definition leaked_error :: go_error where
  "leaked_error =
     WrapError ''request failed: ''
       (UrlError ''Post'' (request_url example_config ''sendMessage'') refused)"

definition too_many :: http_response where
  "too_many = api_failure 429 ''Too Many Requests: retry after 5'' ''5''"

definition unavailable :: http_response where
  "unavailable = api_failure 503 ''Service Unavailable'' []"

text \<open>
  A configuration whose initial delay and ceiling are both 5000000000000000
  nanoseconds, about 58 days: a base at which the \<open>float64\<close> product is rounded to a
  whole number.
\<close>

definition long_config :: Config where
  "long_config =
     example_config\<lparr>RetryInitialBackoff := 5000000000000000,
       RetryMaxBackoff := 5000000000000000\<rparr>"

text \<open>
  Failures of \<open>executeRequest\<close> that are not API failures: a \<open>ReplyMarkup\<close> that
  \<open>json.Marshal\<close> cannot encode, a base address without a scheme, a body that ends
  early, and a body that is no JSON (the HTML page of a gateway).
\<close>

definition marshal_failure :: go_error where
  "marshal_failure = ErrorString ''json: unsupported type: chan int''"

definition no_scheme :: go_error where
  "no_scheme = ErrorString ''missing protocol scheme''"

definition unexpected_EOF :: go_error where
  "unexpected_EOF = ErrorString ''unexpected EOF''"

definition bad_gateway :: http_response where
  "bad_gateway =
     \<lparr>r_StatusCode = 502, r_RetryAfter = [],
      r_Body = Inl (ErrorString ''invalid character '<' looking for beginning of value'')\<rparr>"

text \<open>The failure count of a breaker, as a number.\<close>

definition failures :: "CircuitBreaker \<Rightarrow> nat" where
  "failures cb = unat (TotalFailures (cb_counts cb))"

section \<open>Evaluation rules and auxiliary facts\<close>

lemmas validate_eval =
  ValidateConfig_def validateBotToken_def strconv_ParseInt_def is_digit_def Second_def

text \<open>Rounding: the exponent, the error of one rounding, and the numbers kept.\<close>

lemma ilog2_bounds: "0 < x \<Longrightarrow> 2 powi (ilog2 x) \<le> x \<and> x < 2 powi (ilog2 x + 1)"
proof (induction x rule: ilog2.induct)
  case (1 x)
  show ?case
  proof (cases "2 \<le> x")
    case True
    then have e: "ilog2 x = ilog2 (x / 2) + 1" using 1(3) by (subst ilog2.simps) simp
    have "2 powi (ilog2 (x / 2)) \<le> x / 2 \<and> x / 2 < 2 powi (ilog2 (x / 2) + 1)"
      using 1(1) 1(3) True by simp
    then show ?thesis unfolding e by (simp add: power_int_add field_simps)
  next
    case False
    show ?thesis
    proof (cases "x < 1")
      case True
      then have e: "ilog2 x = ilog2 (x * 2) - 1" using 1(3) False by (subst ilog2.simps) simp
      have "2 powi (ilog2 (x * 2)) \<le> x * 2 \<and> x * 2 < 2 powi (ilog2 (x * 2) + 1)"
        using 1(2) 1(3) False True by simp
      then show ?thesis unfolding e by (simp add: power_int_add power_int_diff field_simps)
    next
      case nlt: False
      then have "ilog2 x = 0" using 1(3) False by (subst ilog2.simps) simp
      then show ?thesis using False nlt by simp
    qed
  qed
qed

lemma round_half_even_err: "\<bar>of_int (round_half_even y) - y\<bar> \<le> 1 / 2"
  unfolding round_half_even_def Let_def by (auto simp: abs_if) linarith+

lemma round64_normal:
  assumes lo: "2 powi (- 1022) \<le> \<bar>x\<bar>" and hi: "\<bar>x\<bar> < 2 ^ 1023"
  shows "\<exists>r. round64 x = Finite r \<and> \<bar>r - x\<bar> \<le> \<bar>x\<bar> / 2 ^ 53"
proof -
  define k where "k = ilog2 \<bar>x\<bar>"
  have pos: "0 < \<bar>x\<bar>" using lo zero_less_power_int[of "2::real" "- 1022"] by linarith
  then have x0: "x \<noteq> 0" by simp
  have kb: "2 powi k \<le> \<bar>x\<bar>" "\<bar>x\<bar> < 2 powi (k + 1)"
    using ilog2_bounds[OF pos] by (simp_all add: k_def)
  have k_lo: "- 1022 \<le> k"
  proof (rule ccontr)
    assume "\<not> - 1022 \<le> k"
    then have "k + 1 \<le> - 1022" by simp
    then have "(2::real) powi (k + 1) \<le> 2 powi (- 1022)"
      by (intro power_int_increasing) simp_all
    then show False using lo kb(2) by linarith
  qed
  define e where "e = k - 52"
  have e_max: "max (ilog2 \<bar>x\<bar> - 52) (- 1074) = e" using k_lo by (simp add: e_def k_def)
  define q where "q = round_half_even (x / 2 powi e)"
  define r where "r = real_of_int q * 2 powi e"
  have pe: "0 < (2::real) powi e" by simp
  have "\<bar>real_of_int q - x / 2 powi e\<bar> \<le> 1 / 2"
    unfolding q_def by (rule round_half_even_err)
  then have "\<bar>real_of_int q - x / 2 powi e\<bar> * 2 powi e \<le> 1 / 2 * 2 powi e"
    using pe by (intro mult_right_mono) simp_all
  moreover have "\<bar>real_of_int q - x / 2 powi e\<bar> * 2 powi e = \<bar>r - x\<bar>"
  proof -
    have "\<bar>real_of_int q - x / 2 powi e\<bar> * 2 powi e
            = \<bar>(real_of_int q - x / 2 powi e) * 2 powi e\<bar>"
      using pe by (simp add: abs_mult)
    also have "(real_of_int q - x / 2 powi e) * 2 powi e = r - x"
      using pe by (simp add: r_def field_simps)
    finally show ?thesis .
  qed
  ultimately have err: "\<bar>r - x\<bar> \<le> 2 powi e / 2" by simp
  have "(2::real) powi k = 2 powi e * 2 ^ 52"
    by (simp add: e_def power_int_diff)
  then have half: "(2::real) powi e / 2 = 2 powi k / 2 ^ 53" by simp
  have rel: "\<bar>r - x\<bar> \<le> \<bar>x\<bar> / 2 ^ 53"
  proof -
    have "2 powi k / 2 ^ 53 \<le> \<bar>x\<bar> / 2 ^ 53" using kb(1) by (simp add: divide_right_mono)
    then show ?thesis using err half by linarith
  qed
  have "\<bar>r\<bar> \<le> \<bar>x\<bar> + \<bar>x\<bar> / 2 ^ 53" using rel by linarith
  also have "\<dots> < 2 ^ 1023 + 2 ^ 1023 / 2 ^ 53" using hi by (simp add: add_strict_mono divide_strict_right_mono)
  also have "\<dots> \<le> (2::real) ^ 1024" by simp
  finally have fin: "\<not> 2 ^ 1024 \<le> \<bar>r\<bar>" by simp
  have "round64 x = Finite r"
    using x0 fin by (simp add: round64_def e_max Let_def q_def[symmetric] r_def[symmetric])
  then show ?thesis using rel by blast
qed

lemma rel_err_bounds:
  fixes r x :: real
  assumes "\<bar>r - x\<bar> \<le> \<bar>x\<bar> / 2 ^ 53" and "0 < x"
  shows "r \<le> x * (1 + 1 / 2 ^ 53)" and "x * (1 - 1 / 2 ^ 53) \<le> r"
proof -
  define d where "d = x / 2 ^ 53"
  have "\<bar>r - x\<bar> \<le> d" using assms by (simp add: d_def)
  then have "r \<le> x + d" "x - d \<le> r" by linarith+
  moreover have "x * (1 + 1 / 2 ^ 53) = x + d" "x * (1 - 1 / 2 ^ 53) = x - d"
    by (simp_all add: d_def algebra_simps)
  ultimately show "r \<le> x * (1 + 1 / 2 ^ 53)" and "x * (1 - 1 / 2 ^ 53) \<le> r" by simp_all
qed

lemma scaled_bounds:
  assumes b0: "0 \<le> b" and bm: "b \<le> 2 ^ 62" and j0: "1 / 4 \<le> j" and j1: "j \<le> 3 / 2"
  shows "real_of_int (float64_to_int64 (float64_mul (float64_of_int64 b) (Finite j)))
           \<le> j * real_of_int b * (1 + 1 / 2 ^ 53)\<^sup>2 \<and>
         j * real_of_int b * (1 - 1 / 2 ^ 53)\<^sup>2 - 1
           < real_of_int (float64_to_int64 (float64_mul (float64_of_int64 b) (Finite j)))"
proof (cases "b = 0")
  case True
  then show ?thesis by (simp add: float64_of_int64_def round64_def trunc_def)
next
  case False
  let ?u = "1 / 2 ^ 53 :: real"
  let ?b = "real_of_int b"
  have b1: "1 \<le> ?b" using b0 False by simp
  have bm': "?b \<le> 2 ^ 62" using bm by (metis of_int_le_iff of_int_numeral of_int_power)
  have "(2::real) powi (- 1022) \<le> 1" by (simp add: power_int_minus field_simps)
  then have "2 powi (- 1022) \<le> \<bar>?b\<bar>" using b1 by linarith
  moreover have "\<bar>?b\<bar> < 2 ^ 1023"
  proof -
    have "(2::real) ^ 62 < 2 ^ 1023" by simp
    then show ?thesis using bm' b1 by linarith
  qed
  ultimately obtain fb where fb: "round64 ?b = Finite fb" and fbe: "\<bar>fb - ?b\<bar> \<le> \<bar>?b\<bar> / 2 ^ 53"
    using round64_normal[of ?b] by blast
  have bpos: "0 < ?b" using b1 by linarith
  have fb_up: "fb \<le> ?b * (1 + ?u)" and fb_lo: "?b * (1 - ?u) \<le> fb"
    using rel_err_bounds[OF fbe bpos] by blast+
  have u_small: "0 < 1 - ?u" by simp
  have fb_pos: "0 < fb"
  proof -
    have "0 < ?b * (1 - ?u)" using b1 u_small by (intro mult_pos_pos) simp_all
    then show ?thesis using fb_lo by linarith
  qed
  let ?x = "fb * j"
  have jpos: "0 < j" using j0 by linarith
  have x_pos: "0 < ?x" using fb_pos jpos by simp
  have x_up: "?x \<le> ?b * (1 + ?u) * j" using fb_up jpos by (intro mult_right_mono) simp_all
  have x_lo: "?b * (1 - ?u) * j \<le> ?x" using fb_lo jpos by (intro mult_right_mono) simp_all
  have x_ge: "1 / 8 \<le> ?x"
  proof -
    have h: "1 * (1 / 2) \<le> ?b * (1 - ?u)" using b1 by (intro mult_mono) simp_all
    have "1 * (1 / 2) * (1 / 4) \<le> ?b * (1 - ?u) * j"
      by (rule mult_mono[OF h j0]) (use bpos u_small in simp_all)
    then show ?thesis using x_lo by linarith
  qed
  have x_le: "?x \<le> 2 ^ 62 * 2 * (3 / 2)"
  proof -
    have h: "?b * (1 + ?u) \<le> 2 ^ 62 * 2" using bm' b1 by (intro mult_mono) simp_all
    have "?b * (1 + ?u) * j \<le> 2 ^ 62 * 2 * (3 / 2)"
      by (rule mult_mono[OF h j1]) (use jpos in simp_all)
    then show ?thesis using x_up by linarith
  qed
  have "(2::real) powi (- 1022) \<le> 1 / 8" by (simp add: power_int_minus field_simps)
  then have "2 powi (- 1022) \<le> \<bar>?x\<bar>" using x_ge by linarith
  moreover have "\<bar>?x\<bar> < 2 ^ 1023"
  proof -
    have "(2::real) ^ 62 * 2 * (3 / 2) < 2 ^ 1023" by simp
    then show ?thesis using x_le x_pos by linarith
  qed
  ultimately obtain p where p: "round64 ?x = Finite p" and pe: "\<bar>p - ?x\<bar> \<le> \<bar>?x\<bar> / 2 ^ 53"
    using round64_normal[of ?x] by blast
  have p_up: "p \<le> ?x * (1 + ?u)" and p_lo: "?x * (1 - ?u) \<le> p"
    using rel_err_bounds[OF pe x_pos] by blast+
  have up: "p \<le> j * ?b * (1 + ?u)\<^sup>2"
  proof -
    have "?x * (1 + ?u) \<le> (?b * (1 + ?u) * j) * (1 + ?u)"
      by (rule mult_right_mono[OF x_up]) simp
    moreover have "(?b * (1 + ?u) * j) * (1 + ?u) = j * ?b * (1 + ?u)\<^sup>2"
      by (simp only: power2_eq_square mult_ac)
    ultimately show ?thesis using p_up by linarith
  qed
  have lo: "j * ?b * (1 - ?u)\<^sup>2 \<le> p"
  proof -
    have "(?b * (1 - ?u) * j) * (1 - ?u) \<le> ?x * (1 - ?u)"
      by (rule mult_right_mono[OF x_lo]) simp
    moreover have "(?b * (1 - ?u) * j) * (1 - ?u) = j * ?b * (1 - ?u)\<^sup>2"
      by (simp only: power2_eq_square mult_ac)
    ultimately show ?thesis using p_lo by linarith
  qed
  have p_nonneg: "0 \<le> p"
  proof -
    have "0 \<le> ?x * (1 - ?u)" using x_pos u_small by simp
    then show ?thesis using p_lo by linarith
  qed
  have p_small: "p < 2 ^ 63"
  proof -
    have h: "fb \<le> 2 ^ 62 * (1 + ?u)"
    proof -
      have "?b * (1 + ?u) \<le> 2 ^ 62 * (1 + ?u)" by (rule mult_right_mono[OF bm']) simp
      then show ?thesis using fb_up by linarith
    qed
    have "?x \<le> 2 ^ 62 * (1 + ?u) * (3 / 2)"
      by (rule mult_mono[OF h j1]) (use jpos in simp_all)
    then have "?x * (1 + ?u) \<le> (2 ^ 62 * (1 + ?u) * (3 / 2)) * (1 + ?u)"
      by (rule mult_right_mono) simp
    moreover have "(2 ^ 62 * (1 + ?u) * (3 / 2)) * (1 + ?u) < (2::real) ^ 63" by simp
    ultimately show ?thesis using p_up by linarith
  qed
  have tr: "trunc p = \<lfloor>p\<rfloor>" using p_nonneg by (simp add: trunc_def)
  have fl0: "0 \<le> \<lfloor>p\<rfloor>" using p_nonneg by simp
  have fl1: "\<lfloor>p\<rfloor> < 2 ^ 63"
  proof -
    have "real_of_int \<lfloor>p\<rfloor> < real_of_int (2 ^ 63)" using p_small by simp
    then show ?thesis by (simp only: of_int_less_iff)
  qed
  have res: "float64_to_int64 (float64_mul (float64_of_int64 b) (Finite j)) = \<lfloor>p\<rfloor>"
    using fl0 fl1 by (simp add: float64_of_int64_def fb p tr)
  have "real_of_int \<lfloor>p\<rfloor> \<le> p" "p - 1 < real_of_int \<lfloor>p\<rfloor>" by linarith+
  then show ?thesis unfolding res using up lo by linarith
qed
lemma round_half_even_int: "round_half_even (real_of_int k) = k"
  by (simp add: round_half_even_def)

lemma round_half_even_ge: "real_of_int k \<le> y \<Longrightarrow> k \<le> round_half_even y"
proof -
  assume "real_of_int k \<le> y"
  then have "k \<le> \<lfloor>y\<rfloor>" by (simp add: le_floor_iff)
  then show ?thesis by (simp add: round_half_even_def Let_def)
qed

lemma round64_shape:
  assumes lo: "2 powi (- 1022) \<le> \<bar>x\<bar>" and hi: "\<bar>x\<bar> < 2 ^ 1023"
  shows "round64 x =
           Finite (real_of_int (round_half_even (x / 2 powi (ilog2 \<bar>x\<bar> - 52)))
                     * 2 powi (ilog2 \<bar>x\<bar> - 52))"
proof -
  obtain r where r: "round64 x = Finite r" using round64_normal[OF lo hi] by blast
  have pos: "0 < \<bar>x\<bar>" using lo zero_less_power_int[of "2::real" "- 1022"] by linarith
  then have x0: "x \<noteq> 0" by simp
  have kb: "\<bar>x\<bar> < 2 powi (ilog2 \<bar>x\<bar> + 1)" using ilog2_bounds[OF pos] by simp
  have k_lo: "- 1022 \<le> ilog2 \<bar>x\<bar>"
  proof (rule ccontr)
    assume "\<not> - 1022 \<le> ilog2 \<bar>x\<bar>"
    then have "ilog2 \<bar>x\<bar> + 1 \<le> - 1022" by simp
    then have "(2::real) powi (ilog2 \<bar>x\<bar> + 1) \<le> 2 powi (- 1022)"
      by (intro power_int_increasing) simp_all
    then show False using lo kb by linarith
  qed
  then have e_max: "max (ilog2 \<bar>x\<bar> - 52) (- 1074) = ilog2 \<bar>x\<bar> - 52" by simp
  show ?thesis
    using r x0 by (simp add: round64_def e_max Let_def split: if_splits)
qed

lemma ilog2_small:
  assumes "0 < x" "x < 2 ^ 53"
  shows "ilog2 x \<le> 52"
proof (rule ccontr)
  assume "\<not> ilog2 x \<le> 52"
  then have "53 \<le> ilog2 x" by simp
  then have "(2::real) powi 53 \<le> 2 powi (ilog2 x)"
    by (intro power_int_increasing) simp_all
  moreover have "2 powi (ilog2 x) \<le> x" using ilog2_bounds[OF assms(1)] by simp
  ultimately show False using assms(2) by simp
qed

lemma round64_ge_int:
  assumes lo: "2 powi (- 1022) \<le> x" and hi: "x < 2 ^ 53" and k: "real_of_int k \<le> x"
  shows "\<exists>r. round64 x = Finite r \<and> real_of_int k \<le> r \<and> \<bar>r - x\<bar> \<le> \<bar>x\<bar> / 2 ^ 53"
proof -
  have pos: "0 < x" using lo zero_less_power_int[of "2::real" "- 1022"] by linarith
  then have ax: "\<bar>x\<bar> = x" by simp
  have hi': "\<bar>x\<bar> < 2 ^ 1023"
  proof -
    have "(2::real) ^ 53 < 2 ^ 1023" by simp
    then show ?thesis using hi ax by linarith
  qed
  have lo': "2 powi (- 1022) \<le> \<bar>x\<bar>" using lo ax by simp
  define e where "e = ilog2 x - 52"
  have e0: "e \<le> 0" using ilog2_small[OF pos hi] by (simp add: e_def)
  define s where "s = nat (- e)"
  have pw: "(2::real) powi e = 1 / 2 ^ s"
    using e0 by (simp add: s_def power_int_def field_simps)
  obtain r where r: "round64 x = Finite r" and err: "\<bar>r - x\<bar> \<le> \<bar>x\<bar> / 2 ^ 53"
    using round64_normal[OF lo' hi'] by blast
  have shape: "r = real_of_int (round_half_even (x / 2 powi e)) * 2 powi e"
    using round64_shape[OF lo' hi'] r by (simp add: ax e_def)
  have "real_of_int (k * 2 ^ s) \<le> x * 2 ^ s" using k by simp
  then have "k * 2 ^ s \<le> round_half_even (x * 2 ^ s)" by (rule round_half_even_ge)
  then have "real_of_int (k * 2 ^ s) \<le> real_of_int (round_half_even (x * 2 ^ s))"
    by (simp only: of_int_le_iff)
  then have "real_of_int k * 2 ^ s \<le> real_of_int (round_half_even (x * 2 ^ s))" by simp
  then have "real_of_int k \<le> real_of_int (round_half_even (x * 2 ^ s)) / 2 ^ s"
    by (simp add: pos_le_divide_eq)
  then have "real_of_int k \<le> r" by (simp add: shape pw)
  then show ?thesis using r err by blast
qed

lemma round64_int:
  assumes "\<bar>b\<bar> < 2 ^ 53"
  shows "round64 (real_of_int b) = Finite (real_of_int b)"
proof (cases "b = 0")
  case True
  then show ?thesis by (simp add: round64_def)
next
  case False
  let ?x = "real_of_int b"
  have a1: "1 \<le> \<bar>?x\<bar>"
  proof -
    have "1 \<le> \<bar>b\<bar>" using False by simp
    then have "real_of_int 1 \<le> real_of_int \<bar>b\<bar>" by (simp only: of_int_le_iff)
    then show ?thesis by simp
  qed
  have a2: "\<bar>?x\<bar> < 2 ^ 53"
  proof -
    have "real_of_int \<bar>b\<bar> < real_of_int (2 ^ 53)" using assms by (simp only: of_int_less_iff)
    then show ?thesis by simp
  qed
  have "(2::real) powi (- 1022) \<le> 1" by (simp add: power_int_minus field_simps)
  then have lo: "2 powi (- 1022) \<le> \<bar>?x\<bar>" using a1 by linarith
  have hi: "\<bar>?x\<bar> < 2 ^ 1023"
  proof -
    have "(2::real) ^ 53 < 2 ^ 1023" by simp
    then show ?thesis using a2 by linarith
  qed
  define e where "e = ilog2 \<bar>?x\<bar> - 52"
  have pos: "0 < \<bar>?x\<bar>" using a1 by linarith
  have e0: "e \<le> 0" using ilog2_small[OF pos a2] by (simp add: e_def)
  define s where "s = nat (- e)"
  have pw: "(2::real) powi e = 1 / 2 ^ s"
    using e0 by (simp add: s_def power_int_def field_simps)
  have "?x / 2 powi e = real_of_int (b * 2 ^ s)" by (simp add: pw)
  then have "round_half_even (?x / 2 powi e) = b * 2 ^ s"
    by (simp only: round_half_even_int)
  then have "real_of_int (round_half_even (?x / 2 powi e)) * 2 powi e = ?x"
    by (simp add: pw)
  then show ?thesis using round64_shape[OF lo hi] by (simp add: e_def)
qed

lemma scaled_exact:
  assumes b0: "0 \<le> b" and bm: "b < 2 ^ 48"
    and c: "c = 4 \<or> c = 6"
    and j0: "real_of_int c / 5 \<le> j" and j1: "j \<le> real_of_int c / 5 * (1 + 1 / 2 ^ 52)"
  shows "float64_to_int64 (float64_mul (float64_of_int64 b) (Finite j)) = (c * b) div 5"
proof (cases "b = 0")
  case True
  then show ?thesis by (simp add: float64_of_int64_def round64_def trunc_def)
next
  case False
  let ?b = "real_of_int b"
  let ?t = "real_of_int c / 5 * ?b"
  let ?q = "(c * b) div 5"
  have b1: "1 \<le> ?b" using b0 False by simp
  have bm': "?b < 2 ^ 48"
  proof -
    have "real_of_int b < real_of_int (2 ^ 48)" using bm by (simp only: of_int_less_iff)
    then show ?thesis by simp
  qed
  have "\<bar>b\<bar> < 2 ^ 53" using b0 bm by simp
  then have fb: "float64_of_int64 b = Finite ?b" by (simp add: float64_of_int64_def round64_int)
  have c4: "4 \<le> real_of_int c" "real_of_int c \<le> 6" using c by auto
  have jpos: "4 / 5 \<le> j" using j0 c4 by simp
  let ?x = "?b * j"
  have t_le_x: "?t \<le> ?x"
  proof -
    have "?b * (real_of_int c / 5) \<le> ?b * j" by (rule mult_left_mono[OF j0]) (use b1 in simp)
    then show ?thesis by (simp add: mult.commute)
  qed
  have t_up: "?t \<le> 6 / 5 * 2 ^ 48"
  proof -
    have "real_of_int c / 5 * ?b \<le> 6 / 5 * 2 ^ 48"
      by (rule mult_mono) (use c4 bm' b1 in simp_all)
    then show ?thesis .
  qed
  have x_up: "?x \<le> ?t * (1 + 1 / 2 ^ 52)"
  proof -
    have "?b * j \<le> ?b * (real_of_int c / 5 * (1 + 1 / 2 ^ 52))"
      by (rule mult_left_mono[OF j1]) (use b1 in simp)
    then show ?thesis by (simp only: mult_ac)
  qed
  have x_ge: "4 / 5 \<le> ?x"
  proof -
    have "1 * (4 / 5) \<le> ?b * j" by (rule mult_mono[OF b1 jpos]) (use b1 in simp_all)
    then show ?thesis by simp
  qed
  have x_lt: "?x < 2 ^ 53"
  proof -
    have "?t * (1 + 1 / 2 ^ 52) \<le> (6 / 5 * 2 ^ 48) * (1 + 1 / 2 ^ 52)"
      by (rule mult_right_mono[OF t_up]) simp
    moreover have "(6 / 5 * 2 ^ 48) * (1 + 1 / 2 ^ 52) < (2::real) ^ 53" by simp
    ultimately show ?thesis using x_up by linarith
  qed
  have q_le_t: "real_of_int ?q \<le> ?t"
  proof -
    have "5 * ?q \<le> c * b"
      using pos_mod_sign[of 5 "c * b"] mult_div_mod_eq[of 5 "c * b"] by linarith
    then have "real_of_int (5 * ?q) \<le> real_of_int (c * b)" by (simp only: of_int_le_iff)
    then show ?thesis by simp
  qed
  have t_lt_q: "?t \<le> real_of_int ?q + 4 / 5"
  proof -
    have "c * b \<le> 5 * ?q + 4"
      using pos_mod_bound[of 5 "c * b"] mult_div_mod_eq[of 5 "c * b"] by linarith
    then have "real_of_int (c * b) \<le> real_of_int (5 * ?q + 4)" by (simp only: of_int_le_iff)
    then show ?thesis by simp
  qed
  have "(2::real) powi (- 1022) \<le> 4 / 5" by (simp add: power_int_minus field_simps)
  then have lo: "2 powi (- 1022) \<le> ?x" using x_ge by linarith
  have kx: "real_of_int ?q \<le> ?x" using q_le_t t_le_x by linarith
  obtain p where p: "round64 ?x = Finite p" and pq: "real_of_int ?q \<le> p"
    and pe: "\<bar>p - ?x\<bar> \<le> \<bar>?x\<bar> / 2 ^ 53"
    using round64_ge_int[OF lo x_lt kx] by blast
  have x_pos: "0 < ?x" using x_ge by linarith
  have p_up: "p \<le> ?x * (1 + 1 / 2 ^ 53)" using rel_err_bounds[OF pe x_pos] by blast
  have p_lt: "p < real_of_int ?q + 1"
  proof -
    have "?x * (1 + 1 / 2 ^ 53) \<le> (?t * (1 + 1 / 2 ^ 52)) * (1 + 1 / 2 ^ 53)"
      by (rule mult_right_mono[OF x_up]) simp
    moreover have "(?t * (1 + 1 / 2 ^ 52)) * (1 + 1 / 2 ^ 53)
        = ?t + ?t * ((1 + 1 / 2 ^ 52) * (1 + 1 / 2 ^ 53) - 1)"
      by (simp add: algebra_simps)
    moreover have "?t * ((1 + 1 / 2 ^ 52) * (1 + 1 / 2 ^ 53) - 1)
        \<le> (6 / 5 * 2 ^ 48) * ((1 + 1 / 2 ^ 52) * (1 + 1 / 2 ^ 53) - 1)"
      by (rule mult_right_mono[OF t_up]) simp
    moreover have "(6 / 5 * 2 ^ 48) * ((1 + 1 / 2 ^ 52) * (1 + 1 / 2 ^ 53) - 1) < (1 / 5 :: real)"
      by simp
    ultimately show ?thesis using p_up t_lt_q by linarith
  qed
  have q0: "0 \<le> ?q" using b0 c by (auto simp: pos_imp_zdiv_nonneg_iff)
  have p0: "0 \<le> p" using pq q0 by (metis of_int_0_le_iff order_trans)
  have fl: "\<lfloor>p\<rfloor> = ?q" using pq p_lt by (simp add: floor_unique)
  have q63: "?q < 2 ^ 63"
  proof -
    have "real_of_int ?q < real_of_int (2 ^ 63)" using q_le_t t_up by simp
    then show ?thesis by (simp only: of_int_less_iff)
  qed
  have "float64_to_int64 (float64_mul (float64_of_int64 b) (Finite j)) = float64_to_int64 (Finite p)"
    by (simp only: fb float64_mul.simps p)
  also have "\<dots> = ?q" using fl q0 q63 p0 by (simp add: trunc_def)
  finally show ?thesis .
qed
text \<open>The backoff calculator: evaluation, the jitter factor, and the scaled base.\<close>

lemmas float_eval =
  round64_def ilog2.simps round_half_even_def float64_of_int64_def trunc_def Let_def

lemmas backoff_eval =
  calculateBackoff_def cappedBackoff_def wrap64_def go_rem_def example_pow_def Second_def

lemma go_rem_2: "0 \<le> n \<Longrightarrow> go_rem n 2 = (if even n then 0 else 1)"
  by (cases "n = 0") (auto simp: go_rem_def sgn_if odd_iff_mod_2_eq_one)

lemma jitter_factor_even:
  "float64_add (round64 0.8) (float64_mul (round64 0.4) (float64_of_int64 0))
     = Finite (3602879701896397 / 2 ^ 52)"
  by (simp add: float_eval)

lemma jitter_factor_odd:
  "float64_add (round64 0.8) (float64_mul (round64 0.4) (float64_of_int64 1))
     = Finite (5404319552844596 / 2 ^ 52)"
  by (simp add: float_eval)

lemma calculateBackoff_jitter:
  "0 \<le> n \<Longrightarrow> calculateBackoff pow cfg n =
     float64_to_int64 (float64_mul (float64_of_int64 (cappedBackoff pow cfg n))
       (Finite ((if even n then 3602879701896397 else 5404319552844596) / 2 ^ 52)))"
proof (cases "even n")
  case True
  assume "0 \<le> n"
  then have g: "go_rem n 2 = 0" using True by (simp add: go_rem_2)
  show ?thesis unfolding calculateBackoff_def Let_def g jitter_factor_even using True by simp
next
  case False
  assume "0 \<le> n"
  then have g: "go_rem n 2 = 1" using False by (simp add: go_rem_2)
  show ?thesis unfolding calculateBackoff_def Let_def g jitter_factor_odd using False by simp
qed

lemma wrap64_in_range: "0 \<le> x \<Longrightarrow> x < 2 ^ 63 \<Longrightarrow> wrap64 x = x"
  by (simp add: wrap64_def)

lemma cappedBackoff_in_range:
  assumes p: "pow (RetryBackoffFactor cfg) (float64_of_int64 (n - 1)) = Finite p"
    and p0: "0 \<le> p"
    and i: "0 < RetryInitialBackoff cfg"
    and r: "RetryInitialBackoff cfg * \<lfloor>p\<rfloor> < 2 ^ 63"
  shows "cappedBackoff pow cfg n =
     min (RetryMaxBackoff cfg) (RetryInitialBackoff cfg * \<lfloor>p\<rfloor>)"
proof -
  have fl0: "0 \<le> \<lfloor>p\<rfloor>" using p0 by simp
  have "\<lfloor>p\<rfloor> \<le> RetryInitialBackoff cfg * \<lfloor>p\<rfloor>"
    using mult_right_mono[of 1 "RetryInitialBackoff cfg" "\<lfloor>p\<rfloor>"] i fl0 by simp
  then have fl: "\<lfloor>p\<rfloor> < 2 ^ 63" using r by linarith
  have conv: "float64_to_int64 (Finite p) = \<lfloor>p\<rfloor>"
    using fl fl0 p0 by (simp add: trunc_def)
  have prod0: "0 \<le> RetryInitialBackoff cfg * \<lfloor>p\<rfloor>" using i fl0 by simp
  show ?thesis using conv wrap64_in_range[OF prod0 r]
    by (simp add: cappedBackoff_def p Let_def min_def)
qed

lemma calculateBackoff_exact:
  assumes n: "0 \<le> n" and b0: "0 \<le> cappedBackoff pow cfg n"
    and bm: "cappedBackoff pow cfg n < 2 ^ 48"
  shows "calculateBackoff pow cfg n =
           (if even n then 4 * cappedBackoff pow cfg n div 5
            else 6 * cappedBackoff pow cfg n div 5)"
proof (cases "even n")
  case True
  have "(4::real) / 5 \<le> 3602879701896397 / 2 ^ 52"
       "(3602879701896397::real) / 2 ^ 52 \<le> 4 / 5 * (1 + 1 / 2 ^ 52)" by simp_all
  then have "float64_to_int64 (float64_mul (float64_of_int64 (cappedBackoff pow cfg n))
               (Finite (3602879701896397 / 2 ^ 52))) = 4 * cappedBackoff pow cfg n div 5"
    using scaled_exact[OF b0 bm, of 4 "3602879701896397 / 2 ^ 52"] by simp
  then show ?thesis using True n by (simp add: calculateBackoff_jitter)
next
  case False
  have "(6::real) / 5 \<le> 5404319552844596 / 2 ^ 52"
       "(5404319552844596::real) / 2 ^ 52 \<le> 6 / 5 * (1 + 1 / 2 ^ 52)" by simp_all
  then have "float64_to_int64 (float64_mul (float64_of_int64 (cappedBackoff pow cfg n))
               (Finite (5404319552844596 / 2 ^ 52))) = 6 * cappedBackoff pow cfg n div 5"
    using scaled_exact[OF b0 bm, of 6 "5404319552844596 / 2 ^ 52"] by simp
  then show ?thesis using False n by (simp add: calculateBackoff_jitter)
qed

lemma calculateBackoff_approx:
  assumes n: "0 \<le> n" and b0: "0 \<le> cappedBackoff pow cfg n"
    and bm: "cappedBackoff pow cfg n \<le> 2 ^ 62"
  shows "real_of_int (calculateBackoff pow cfg n)
           \<le> (if even n then 0.8 else 1.2) * (1 + 1 / 2 ^ 51)
               * real_of_int (cappedBackoff pow cfg n) \<and>
         (if even n then 0.8 else 1.2) * (1 - 1 / 2 ^ 52)
               * real_of_int (cappedBackoff pow cfg n) - 1
           < real_of_int (calculateBackoff pow cfg n)"
proof -
  let ?b = "real_of_int (cappedBackoff pow cfg n)"
  let ?j = "(if even n then 3602879701896397 else 5404319552844596) / 2 ^ 52 :: real"
  let ?c = "(if even n then 0.8 else 1.2) :: real"
  have b: "0 \<le> ?b" using b0 by simp
  have j: "1 / 4 \<le> ?j" "?j \<le> 3 / 2" by simp_all
  have cb: "calculateBackoff pow cfg n =
      float64_to_int64 (float64_mul (float64_of_int64 (cappedBackoff pow cfg n)) (Finite ?j))"
    using n by (simp add: calculateBackoff_jitter)
  have bounds: "real_of_int (calculateBackoff pow cfg n) \<le> ?j * ?b * (1 + 1 / 2 ^ 53)\<^sup>2"
       "?j * ?b * (1 - 1 / 2 ^ 53)\<^sup>2 - 1 < real_of_int (calculateBackoff pow cfg n)"
    using scaled_bounds[OF b0 bm j] unfolding cb by blast+
  have up: "?j * (1 + 1 / 2 ^ 53)\<^sup>2 \<le> ?c * (1 + 1 / 2 ^ 51)"
    by (simp add: power2_eq_square)
  have lo: "?c * (1 - 1 / 2 ^ 52) \<le> ?j * (1 - 1 / 2 ^ 53)\<^sup>2"
    by (simp add: power2_eq_square)
  have "?j * ?b * (1 + 1 / 2 ^ 53)\<^sup>2 = (?j * (1 + 1 / 2 ^ 53)\<^sup>2) * ?b" by (simp only: mult_ac)
  also have "\<dots> \<le> (?c * (1 + 1 / 2 ^ 51)) * ?b" by (rule mult_right_mono[OF up b])
  finally have 1: "?j * ?b * (1 + 1 / 2 ^ 53)\<^sup>2 \<le> ?c * (1 + 1 / 2 ^ 51) * ?b" .
  have "(?c * (1 - 1 / 2 ^ 52)) * ?b \<le> (?j * (1 - 1 / 2 ^ 53)\<^sup>2) * ?b"
    by (rule mult_right_mono[OF lo b])
  also have "\<dots> = ?j * ?b * (1 - 1 / 2 ^ 53)\<^sup>2" by (simp only: mult_ac)
  finally have 2: "?c * (1 - 1 / 2 ^ 52) * ?b \<le> ?j * ?b * (1 - 1 / 2 ^ 53)\<^sup>2" .
  show ?thesis using bounds 1 2 by linarith
qed


lemma floor_fifths: "\<lfloor>real_of_int c / 5 * real_of_int b\<rfloor> = c * b div 5"
proof -
  have "real_of_int c / 5 * real_of_int b = real_of_int (c * b) / real_of_int 5" by simp
  then show ?thesis by (simp only: floor_divide_of_int_eq)
qed

text \<open>A chain that ends in \<open>context.Canceled\<close> holds no timeout and is not retried.\<close>

lemma Canceled_no_Timeout: "errors_Is err Canceled \<Longrightarrow> \<not> Timeout err"
  by (induction err) auto

lemma Canceled_no_timeout_found:
  "errors_Is err Canceled \<Longrightarrow> errors_As_net_Error err = Some netErr \<Longrightarrow> \<not> Timeout netErr"
proof (induction err)
  case (UrlError opn url e)
  then show ?case using Canceled_no_Timeout[of e] by auto
qed auto

lemma isRetryable_Canceled: "errors_Is err Canceled \<Longrightarrow> \<not> isRetryable err"
  using Canceled_no_timeout_found[of err]
  by (auto simp: isRetryable_def split: option.splits)

lemma isRetryable_ErrOpenState: "\<not> isRetryable ErrOpenState"
  by (simp add: isRetryable_def extractTelegramError_def)

lemma sendMessageOnce_waits:
  "w_waits (snd (sendMessageOnce cfg e w)) = w_waits w \<and>
   w_attempts (snd (sendMessageOnce cfg e w)) = w_attempts w"
  by (auto simp: sendMessageOnce_def Let_def split: option.splits prod.splits sum.splits)

text \<open>
  The call of \<open>errors.As\<close> stands between the classification of a failure and the
  wait before the next attempt, so no run of the loop ever starts a wait.
\<close>

lemma sendLoop_never_waits: "w_waits (snd (sendLoop cfg env attempt w)) = w_waits w"
proof -
  have "w_waits (snd (sendMessageOnce cfg (env (nat attempt))
          (w\<lparr>w_attempts := w_attempts w + 1\<rparr>))) = w_waits w"
    by (simp add: sendMessageOnce_waits)
  then show ?thesis
    by (subst sendLoop.simps)
       (auto simp: errors_As_TelegramResponse_def split: prod.splits sum.splits)
qed

lemma beforeRequest_open:
  assumes "cb_state cb = StateOpen" "\<not> expiry_Before (cb_expiry cb) now"
  shows "beforeRequest cb now = (Inl ErrOpenState, cb, [])"
  using assms by (simp add: beforeRequest_def currentState_def)

lemma Execute_open:
  assumes "cb_state cb = StateOpen" "\<not> expiry_Before (cb_expiry cb) now0"
  shows "Execute cb now0 now1 req = (Inl ErrOpenState, cb, [])"
  using assms by (simp add: Execute_def beforeRequest_open)

lemma sendMessageOnce_open:
  assumes "e_limiter e = None" "cb_state (w_breaker w) = StateOpen"
    "\<not> expiry_Before (cb_expiry (w_breaker w)) (e_now0 e)"
  shows "sendMessageOnce cfg e w = (Inl ErrOpenState, w)"
  using assms by (simp add: sendMessageOnce_def Execute_open)

lemmas breaker_eval =
  Execute_def beforeRequest_def afterRequest_def currentState_def onSuccess_def
  onFailure_def setState_def toNewGeneration_def expiry_Before_def Counts_onRequest_def
  Counts_onSuccess_def Counts_onFailure_def Counts_clear_def ReadyToTrip_def

lemmas example_eval =
  Let_def example_env_def example_world_def example_breaker_def api_failure_def
  nil_RawMessage_def Second_def

lemmas format_eval =
  api_error_def strconv_Itoa_def nat_digits.simps digit_char_def

lemma valid_example: "ValidateConfig example_config = None"
  by (simp add: example_config_def validate_eval)

text \<open>One iteration of the loop, by the outcome of its attempt.\<close>

lemma sendLoop_retryable_panics:
  assumes "attempt < MaxRetries cfg"
    and "sendMessageOnce cfg (env (nat attempt)) (w\<lparr>w_attempts := w_attempts w + 1\<rparr>)
           = (Inl err, w1)"
    and "isRetryable err"
  shows "sendLoop cfg env attempt w =
           (Panics ''errors: *target must be interface or implement error'', w1)"
  using assms by (subst sendLoop.simps) (simp add: errors_As_TelegramResponse_def)

lemma sendLoop_not_retryable:
  assumes "attempt < MaxRetries cfg"
    and "sendMessageOnce cfg (env (nat attempt)) (w\<lparr>w_attempts := w_attempts w + 1\<rparr>)
           = (Inl err, w1)"
    and "\<not> isRetryable err"
  shows "sendLoop cfg env attempt w =
           (Returns (Inl err),
            w1\<lparr>w_logs := w_logs w1 @ [(LevelError, ''non-retryable error'',
                     [(''error'', AError err), (''attempt'', AInt attempt)])]\<rparr>)"
  using assms by (subst sendLoop.simps) simp

text \<open>The breaker's failure count under a request that returns no error.\<close>

lemma failures_toNewGeneration: "failures (toNewGeneration cb now) = 0"
  by (simp add: failures_def toNewGeneration_def Counts_clear_def)

lemma failures_setState: "failures (fst (setState cb st now)) \<le> failures cb"
  by (simp add: setState_def failures_toNewGeneration)

lemma failures_currentState: "failures (fst (currentState cb now)) \<le> failures cb"
  by (auto simp: currentState_def failures_toNewGeneration failures_setState
           split: State.splits)

lemma failures_beforeRequest: "failures (fst (snd (beforeRequest cb now))) \<le> failures cb"
proof -
  obtain cb1 evs where c: "currentState cb now = (cb1, evs)"
    by (cases "currentState cb now")
  have "failures cb1 \<le> failures cb" using failures_currentState[of cb now] c by simp
  moreover have "failures (cb1\<lparr>cb_counts := Counts_onRequest (cb_counts cb1)\<rparr>) = failures cb1"
    by (simp add: failures_def Counts_onRequest_def)
  ultimately show ?thesis by (simp add: beforeRequest_def c)
qed

lemma failures_onSuccess: "failures (fst (onSuccess cb st now)) \<le> failures cb"
proof -
  have e: "failures (cb\<lparr>cb_counts := Counts_onSuccess (cb_counts cb)\<rparr>) = failures cb"
    by (simp add: failures_def Counts_onSuccess_def)
  have "failures (fst (setState (cb\<lparr>cb_counts := Counts_onSuccess (cb_counts cb)\<rparr>)
                         StateClosed now)) \<le> failures cb"
    using failures_setState[of "cb\<lparr>cb_counts := Counts_onSuccess (cb_counts cb)\<rparr>"
            StateClosed now] e
    by simp
  then show ?thesis using e by (cases st) (simp_all add: onSuccess_def Let_def)
qed

lemma failures_afterRequest_success:
  "failures (fst (afterRequest cb gen True now)) \<le> failures cb"
proof -
  obtain cb1 evs where c: "currentState cb now = (cb1, evs)"
    by (cases "currentState cb now")
  have 1: "failures cb1 \<le> failures cb" using failures_currentState[of cb now] c by simp
  obtain cb2 evs2 where s: "onSuccess cb1 (cb_state cb1) now = (cb2, evs2)"
    by (cases "onSuccess cb1 (cb_state cb1) now")
  have "failures cb2 \<le> failures cb1"
    using failures_onSuccess[of cb1 "cb_state cb1" now] s by simp
  then show ?thesis using 1 by (simp add: afterRequest_def c s)
qed

lemma failures_Execute_success:
  "failures (fst (snd (Execute cb now0 now1 (Inr r, evs)))) \<le> failures cb"
proof -
  obtain res cb1 evs1 where b: "beforeRequest cb now0 = (res, cb1, evs1)"
    by (cases "beforeRequest cb now0") auto
  have 1: "failures cb1 \<le> failures cb" using failures_beforeRequest[of cb now0] b by simp
  show ?thesis
  proof (cases res)
    case (Inl err)
    then show ?thesis using 1 by (simp add: Execute_def b)
  next
    case (Inr gen)
    obtain cb2 evs2 where a: "afterRequest cb1 gen True now1 = (cb2, evs2)"
      by (cases "afterRequest cb1 gen True now1")
    have "failures cb2 \<le> failures cb1"
      using failures_afterRequest_success[of cb1 gen now1] a by simp
    then show ?thesis using 1 Inr by (simp add: Execute_def b a)
  qed
qed

lemma Execute_closed_success:
  assumes "cb_state cb = StateClosed"
    and "cb_expiry cb = None \<or>
         \<not> expiry_Before (cb_expiry cb) now0 \<and> \<not> expiry_Before (cb_expiry cb) now1"
  shows "Execute cb now0 now1 (Inr r, evs) =
           (Inr r, cb\<lparr>cb_counts := Counts_onSuccess (Counts_onRequest (cb_counts cb))\<rparr>, evs)"
  using assms
  by (auto simp: Execute_def beforeRequest_def afterRequest_def currentState_def
        onSuccess_def)

lemma executeRequest_envelope:
  assumes "r_Body resp = Inr j" "\<not> j_ok j"
  shows "\<exists>d evs. executeRequest cfg method (Responds resp) =
            (Inr \<lparr>OK = False, Result = j_result j, ErrorCode = j_error_code j,
                  Description = j_description j, RetryAfter = d\<rparr>, evs)"
  using assms by (auto simp: executeRequest_def Let_def split: option.splits)

lemma executeRequest_error_cases:
  "(\<exists>err. fst (executeRequest cfg method io) = Inl err) \<longleftrightarrow>
     (case io of
        Responds resp \<Rightarrow> (case r_Body resp of Inl e \<Rightarrow> True | Inr j \<Rightarrow> False)
      | _ \<Rightarrow> True)"
  by (auto simp: executeRequest_def Let_def split: io_outcome.splits sum.splits option.splits)

text \<open>The breaker under a request that returns an error.\<close>

lemma executeRequest_errors:
  "executeRequest cfg m (MarshalFails e)
     = (Inl (WrapError ''failed to marshal request: '' e), [])"
  "executeRequest cfg m (NewRequestFails e)
     = (Inl (WrapError (''failed to create request to '' @ redacted_url cfg m @ '': '')
               (UrlError ''parse'' (request_url cfg m) e)), [])"
  "executeRequest cfg m (DoFails e)
     = (Inl (WrapError ''request failed: '' (UrlError ''Post'' (request_url cfg m) e)), [])"
  "executeRequest cfg m (ReadFails e)
     = (Inl (WrapError ''failed to read response: '' e), [])"
  "r_Body resp = Inl e \<Longrightarrow>
   executeRequest cfg m (Responds resp)
     = (Inl (WrapError ''failed to parse response: '' e), [])"
  by (simp_all add: executeRequest_def Let_def)

lemma Execute_closed_failure:
  assumes "cb_state cb = StateClosed"
    and "cb_expiry cb = None \<or>
         \<not> expiry_Before (cb_expiry cb) now0 \<and> \<not> expiry_Before (cb_expiry cb) now1"
  shows "Execute cb now0 now1 (Inl err, evs) =
           (Inl err,
            fst (onFailure (cb\<lparr>cb_counts := Counts_onRequest (cb_counts cb)\<rparr>) StateClosed now1),
            evs @ snd (onFailure (cb\<lparr>cb_counts := Counts_onRequest (cb_counts cb)\<rparr>)
                         StateClosed now1))"
proof -
  let ?cb1 = "cb\<lparr>cb_counts := Counts_onRequest (cb_counts cb)\<rparr>"
  have c0: "currentState cb now0 = (cb, [])"
    using assms by (auto simp: currentState_def)
  have c1: "currentState ?cb1 now1 = (?cb1, [])"
    using assms by (auto simp: currentState_def)
  have b: "beforeRequest cb now0 = (Inr (cb_generation cb), ?cb1, [])"
    using assms(1) by (simp add: beforeRequest_def c0)
  have a: "afterRequest ?cb1 (cb_generation cb) False now1
             = (fst (onFailure ?cb1 StateClosed now1), snd (onFailure ?cb1 StateClosed now1))"
    using assms(1) by (simp add: afterRequest_def c1 split_beta)
  show ?thesis by (simp add: Execute_def b a split_beta)
qed

lemma onFailure_closed_counts:
  "\<not> ReadyToTrip (Counts_onFailure (cb_counts cb)) \<Longrightarrow>
   onFailure cb StateClosed now = (cb\<lparr>cb_counts := Counts_onFailure (cb_counts cb)\<rparr>, [])"
  by (simp add: onFailure_def Let_def)

text \<open>A factor that is NaN passes the validation: \<open>NaN <= 0\<close> is false.\<close>

lemma ValidateConfig_NaN:
  "ValidateConfig (example_config\<lparr>RetryBackoffFactor := NaN\<rparr>) = None"
  by (simp add: example_config_def validate_eval)

text \<open>The concrete runs.\<close>

lemma once_refused:
  "sendMessageOnce example_config (example_env (DoFails refused) None 0)
      (example_world\<lparr>w_attempts := w_attempts example_world + 1\<rparr>)
   = (Inl leaked_error,
      \<lparr>w_breaker = example_breaker\<lparr>cb_counts :=
                      Counts_onFailure (Counts_onRequest Counts_clear)\<rparr>,
       w_logs = [], w_waits = [], w_attempts = 1\<rparr>)"
  by (simp add: sendMessageOnce_def executeRequest_def breaker_eval example_eval
        leaked_error_def)

lemma leaked_not_retryable: "\<not> isRetryable leaked_error"
  by (simp add: isRetryable_def extractTelegramError_def leaked_error_def refused_def
        request_url_def example_config_def strconv_Quote_def)

lemma leaked_contains: "strings_Contains (Error leaked_error) (BotToken example_config)"
  by (simp add: leaked_error_def refused_def request_url_def example_config_def
        strconv_Quote_def)

lemma execute_too_many:
  "executeRequest example_config ''sendMessage'' (Responds too_many)
     = (Inr \<lparr>OK = False, Result = nil_RawMessage, ErrorCode = 429,
              Description = ''Too Many Requests: retry after 5'', RetryAfter = 5 * Second\<rparr>,
        [(LevelError, ''telegram API error'',
          [(''method'', AString ''sendMessage''),
           (''url'', AString (redacted_url example_config ''sendMessage'')),
           (''status_code'', AInt 429), (''error_code'', AInt 429),
           (''description'', AString ''Too Many Requests: retry after 5''),
           (''retry_after'', AString ''5'')])])"
  by (simp add: executeRequest_def too_many_def api_failure_def strconv_ParseInt_def
        is_digit_def wrap64_def Second_def Let_def)

lemma once_too_many:
  "w_breaker w = example_breaker \<Longrightarrow>
   fst (sendMessageOnce example_config (example_env (Responds too_many) ctx_done i) w)
   = Inl (ErrorString ''telegram API error: 429 Too Many Requests: retry after 5'')"
  by (simp add: sendMessageOnce_def execute_too_many breaker_eval example_eval format_eval)

lemma once_unavailable:
  "w_breaker w = example_breaker \<Longrightarrow>
   fst (sendMessageOnce example_config (example_env (Responds unavailable) ctx_done i) w)
   = Inl (ErrorString ''telegram API error: 503 Service Unavailable'')"
  by (simp add: sendMessageOnce_def executeRequest_def unavailable_def breaker_eval
        example_eval format_eval)

section \<open>The error classifier: cancellation and deadline\<close>

text \<open>
  Claim C3 says that \<open>isRetryable\<close> returns false for \<open>context.Canceled\<close> and for
  \<open>context.DeadlineExceeded\<close>.  The test for a \<open>net.Error\<close> with \<open>Timeout()\<close> comes
  first in \<open>isRetryable\<close>, and \<open>context.DeadlineExceeded\<close> is such an error: alone,
  wrapped by \<open>sendMessageOnce\<close> after the rate limiter, or wrapped by
  \<open>executeRequest\<close> after the HTTP client, an expired deadline is classified as
  retryable.
\<close>

theorem C3_deadline_exceeded_is_retryable:
  "isRetryable DeadlineExceeded \<and>
   isRetryable (WrapError ''rate limit exceeded: '' DeadlineExceeded) \<and>
   isRetryable (WrapError ''request failed: ''
      (UrlError ''Post'' (request_url example_config ''sendMessage'') DeadlineExceeded))"
  by (simp add: isRetryable_def)

section \<open>The backoff calculator: bounds\<close>

text \<open>
  Claim C5 as stated: for every attempt number \<open>n \<ge> 1\<close> the result of
  \<open>calculateBackoff\<close> is at most \<open>RetryMaxBackoff\<close> and at least 0.8 times
  \<open>initial * multiplier ^ (n - 1)\<close>.  With the default configuration the ninth attempt
  gives 12 seconds: more than the ceiling of 10 seconds, and less than 0.8 times the
  uncapped 25.6 seconds.  With the multiplier 1.5 the second attempt gives 80
  milliseconds, less than 0.8 times 150 milliseconds, since the power is cut to a
  whole number before it is multiplied with the initial delay.
\<close>

theorem C5_counterexample:
  "RetryMaxBackoff example_config < calculateBackoff example_pow example_config 9 \<and>
   RetryBackoffFactor example_config = Finite 2 \<and>
   real_of_int (calculateBackoff example_pow example_config 9) <
     0.8 * (real_of_int (RetryInitialBackoff example_config) * 2 ^ 8) \<and>
   real_of_int (calculateBackoff example_pow
                  (example_config\<lparr>RetryBackoffFactor := Finite 1.5\<rparr>) 2) <
     0.8 * (real_of_int (RetryInitialBackoff example_config) * 1.5 ^ 1)"
  by (simp add: example_config_def backoff_eval float_eval)

text \<open>
  Claim C5, amended: for every attempt number \<open>n \<ge> 1\<close> and positive configuration
  whose values stay in the range of \<open>int64\<close>, with a ceiling of at most \<open>2 ^ 62\<close>
  nanoseconds, and for which \<open>multiplier ^ (n - 1)\<close> is a whole number that
  \<open>math.Pow\<close> returns exactly, the result lies between 0.8 times and 1.2 times the
  capped base, the smaller of \<open>RetryMaxBackoff\<close> and \<open>initial * multiplier ^ (n - 1)\<close>,
  and so is at most 1.2 times \<open>RetryMaxBackoff\<close>: up to the nanosecond lost when the
  fraction is cut, and up to the rounding of the \<open>float64\<close> product, a part in
  \<open>2 ^ 51\<close> of the value.  Below a ceiling of \<open>2 ^ 48\<close> nanoseconds (about three days)
  the rounding changes nothing, and the bounds hold as they stand.
\<close>

theorem C5_backoff_bounds:
  assumes n: "1 \<le> n"
    and f: "RetryBackoffFactor cfg = Finite f" "0 < f"
    and i: "0 < RetryInitialBackoff cfg"
    and m: "0 < RetryMaxBackoff cfg" "RetryMaxBackoff cfg \<le> 2 ^ 62"
    and pw: "pow (Finite f) (float64_of_int64 (n - 1)) = Finite (f ^ nat (n - 1))"
    and whole: "f ^ nat (n - 1) \<in> \<int>"
    and r: "real_of_int (RetryInitialBackoff cfg) * f ^ nat (n - 1) < 2 ^ 63"
  shows "real_of_int (calculateBackoff pow cfg n)
           \<le> 1.2 * (1 + 1 / 2 ^ 51) * real_of_int (RetryMaxBackoff cfg) \<and>
         real_of_int (calculateBackoff pow cfg n)
           \<le> 1.2 * (1 + 1 / 2 ^ 51) *
               min (real_of_int (RetryMaxBackoff cfg))
                   (real_of_int (RetryInitialBackoff cfg) * f ^ nat (n - 1)) \<and>
         0.8 * (1 - 1 / 2 ^ 52) *
               min (real_of_int (RetryMaxBackoff cfg))
                   (real_of_int (RetryInitialBackoff cfg) * f ^ nat (n - 1)) - 1
           < real_of_int (calculateBackoff pow cfg n) \<and>
         (RetryMaxBackoff cfg < 2 ^ 48 \<longrightarrow>
            real_of_int (calculateBackoff pow cfg n) \<le> 1.2 * real_of_int (RetryMaxBackoff cfg) \<and>
            real_of_int (calculateBackoff pow cfg n)
              \<le> 1.2 * min (real_of_int (RetryMaxBackoff cfg))
                      (real_of_int (RetryInitialBackoff cfg) * f ^ nat (n - 1)) \<and>
            0.8 * min (real_of_int (RetryMaxBackoff cfg))
                    (real_of_int (RetryInitialBackoff cfg) * f ^ nat (n - 1)) - 1
              < real_of_int (calculateBackoff pow cfg n))"
proof -
  let ?p = "f ^ nat (n - 1)"
  let ?b = "cappedBackoff pow cfg n"
  let ?B = "min (real_of_int (RetryMaxBackoff cfg)) (real_of_int (RetryInitialBackoff cfg) * ?p)"
  let ?r = "real_of_int (calculateBackoff pow cfg n)"
  let ?c = "(if even n then 0.8 else 1.2) :: real"
  have n0: "0 \<le> n" using n by simp
  have p0: "0 \<le> ?p" using f(2) by simp
  have fl: "real_of_int \<lfloor>?p\<rfloor> = ?p" using whole by (rule of_int_floor)
  have "real_of_int (RetryInitialBackoff cfg * \<lfloor>?p\<rfloor>)
          = real_of_int (RetryInitialBackoff cfg) * ?p"
    by (simp only: of_int_mult fl)
  then have "real_of_int (RetryInitialBackoff cfg * \<lfloor>?p\<rfloor>) < 2 ^ 63"
    using r by (simp only:)
  then have r': "RetryInitialBackoff cfg * \<lfloor>?p\<rfloor> < 2 ^ 63"
    by (metis of_int_less_iff of_int_numeral of_int_power)
  have pw': "pow (RetryBackoffFactor cfg) (float64_of_int64 (n - 1)) = Finite ?p"
    using pw f(1) by simp
  have b: "?b = min (RetryMaxBackoff cfg) (RetryInitialBackoff cfg * \<lfloor>?p\<rfloor>)"
    using pw' p0 i r' by (rule cappedBackoff_in_range)
  have breal: "real_of_int ?b = ?B"
    unfolding b by (simp only: of_int_min of_int_mult fl)
  have "0 \<le> \<lfloor>?p\<rfloor>" using p0 by simp
  then have b0: "0 \<le> ?b" using b i m(1) by (simp add: min_def)
  have bm: "?b \<le> RetryMaxBackoff cfg" using b by simp
  then have bm62: "?b \<le> 2 ^ 62" using m(2) by linarith
  have B0: "0 \<le> ?B" using b0 breal by (metis of_int_0_le_iff)
  have Bm: "?B \<le> real_of_int (RetryMaxBackoff cfg)" by simp
  have c: "0.8 \<le> ?c" "?c \<le> 1.2" by simp_all
  have approx: "?r \<le> ?c * (1 + 1 / 2 ^ 51) * ?B" "?c * (1 - 1 / 2 ^ 52) * ?B - 1 < ?r"
    using calculateBackoff_approx[OF n0 b0 bm62] unfolding breal by blast+
  have up: "?c * (1 + 1 / 2 ^ 51) * ?B \<le> 1.2 * (1 + 1 / 2 ^ 51) * ?B"
    by (intro mult_right_mono B0) simp_all
  have up2: "1.2 * (1 + 1 / 2 ^ 51) * ?B
               \<le> 1.2 * (1 + 1 / 2 ^ 51) * real_of_int (RetryMaxBackoff cfg)"
    by (intro mult_left_mono Bm) simp_all
  have lo: "0.8 * (1 - 1 / 2 ^ 52) * ?B \<le> ?c * (1 - 1 / 2 ^ 52) * ?B"
    by (intro mult_right_mono B0) simp_all
  have general: "?r \<le> 1.2 * (1 + 1 / 2 ^ 51) * real_of_int (RetryMaxBackoff cfg)"
      "?r \<le> 1.2 * (1 + 1 / 2 ^ 51) * ?B" "0.8 * (1 - 1 / 2 ^ 52) * ?B - 1 < ?r"
    using approx up up2 lo by linarith+
  have exact: "?r \<le> 1.2 * real_of_int (RetryMaxBackoff cfg) \<and> ?r \<le> 1.2 * ?B \<and>
               0.8 * ?B - 1 < ?r" if small: "RetryMaxBackoff cfg < 2 ^ 48"
  proof -
    have b48: "?b < 2 ^ 48" using bm small by linarith
    have "calculateBackoff pow cfg n = (if even n then 4 * ?b div 5 else 6 * ?b div 5)"
      using n0 b0 b48 by (rule calculateBackoff_exact)
    then have "calculateBackoff pow cfg n = \<lfloor>?c * real_of_int ?b\<rfloor>"
      using floor_fifths[of 4 ?b] floor_fifths[of 6 ?b] by simp
    then have e: "calculateBackoff pow cfg n = \<lfloor>?c * ?B\<rfloor>" by (simp only: breal)
    have 1: "?r \<le> ?c * ?B" "?c * ?B - 1 < ?r" unfolding e by linarith+
    have 2: "?c * ?B \<le> 1.2 * ?B" "0.8 * ?B \<le> ?c * ?B"
      using B0 by (auto intro: mult_right_mono)
    have 3: "1.2 * ?B \<le> 1.2 * real_of_int (RetryMaxBackoff cfg)"
      by (intro mult_left_mono Bm) simp_all
    show ?thesis using 1 2 3 by linarith
  qed
  show ?thesis using general exact by blast
qed

theorem C5_backoff_bounds_witness:
  "(1::int) \<le> 9 \<and> RetryBackoffFactor example_config = Finite 2 \<and>
   0 < RetryInitialBackoff example_config \<and> 0 < RetryMaxBackoff example_config \<and>
   RetryMaxBackoff example_config < 2 ^ 48 \<and>
   example_pow (Finite 2) (float64_of_int64 (9 - 1)) = Finite (2 ^ nat (9 - 1)) \<and>
   (2::real) ^ nat (9 - 1) \<in> \<int> \<and>
   calculateBackoff example_pow example_config 9 = 12 * Second \<and>
   real_of_int (calculateBackoff example_pow example_config 9)
     \<le> 1.2 * real_of_int (RetryMaxBackoff example_config) \<and>
   calculateBackoff example_pow example_config 8 = 8 * Second \<and>
   RetryMaxBackoff long_config \<le> 2 ^ 62 \<and>
   calculateBackoff example_pow long_config 1 = 6000000000000001 \<and>
   real_of_int (calculateBackoff example_pow long_config 1)
     \<le> 1.2 * (1 + 1 / 2 ^ 51) * real_of_int (RetryMaxBackoff long_config)"
  using C5_backoff_bounds[of 9 example_config 2 example_pow]
    C5_backoff_bounds[of 8 example_config 2 example_pow]
    C5_backoff_bounds[of 1 long_config 2 example_pow]
  by (simp add: long_config_def example_config_def backoff_eval float_eval)

section \<open>The backoff calculator: the jitter factor\<close>




section \<open>The circuit-open failure\<close>

text \<open>
  Claim C6 as stated: \<open>isRetryable\<close> returns true for the failure of an open breaker.
  It returns false: the error is no timeout and its text is not that of an API error.
\<close>

theorem C6_counterexample: "\<not> isRetryable ErrOpenState"
  by (simp add: isRetryable_def extractTelegramError_def)

text \<open>
  Claim C6, amended: when the breaker is open and rejects the first attempt, the
  circuit-open failure is classified as not retryable, and \<open>SendMessage\<close> makes no
  further attempt: it returns the failure after that one attempt (wrapped as
  \<open>max retries exceeded\<close> when \<open>MaxRetries\<close> is 0), without a wait and without a
  change of the breaker.
\<close>

theorem C6_circuit_open_not_retried:
  assumes valid: "ValidateConfig cfg = None"
    and admitted: "e_limiter (env 0) = None"
    and isopen: "cb_state (w_breaker w) = StateOpen"
    and unexpired: "\<not> expiry_Before (cb_expiry (w_breaker w)) (e_now0 (env 0))"
  shows "\<not> isRetryable ErrOpenState \<and>
         fst (SendMessage cfg env w) =
           Returns (Inl (if MaxRetries cfg = 0
                         then WrapError ''max retries exceeded: '' ErrOpenState
                         else ErrOpenState)) \<and>
         w_attempts (snd (SendMessage cfg env w)) = w_attempts w + 1 \<and>
         w_waits (snd (SendMessage cfg env w)) = w_waits w \<and>
         w_breaker (snd (SendMessage cfg env w)) = w_breaker w"
proof -
  have m: "0 \<le> MaxRetries cfg"
    using valid by (auto simp: ValidateConfig_def split: if_splits)
  have once: "sendMessageOnce cfg (env 0) (w\<lparr>w_attempts := w_attempts w + 1\<rparr>) =
      (Inl ErrOpenState, w\<lparr>w_attempts := w_attempts w + 1\<rparr>)"
    using admitted isopen unexpired by (simp add: sendMessageOnce_open)
  have "sendLoop cfg env 0 w =
     (if MaxRetries cfg = 0
      then (Returns (Inl (WrapError ''max retries exceeded: '' ErrOpenState)),
            w\<lparr>w_attempts := w_attempts w + 1\<rparr>)
      else (Returns (Inl ErrOpenState),
            w\<lparr>w_attempts := w_attempts w + 1,
              w_logs := w_logs w @ [(LevelError, ''non-retryable error'',
                 [(''error'', AError ErrOpenState), (''attempt'', AInt 0)])]\<rparr>))"
    using m once by (subst sendLoop.simps) (simp add: isRetryable_ErrOpenState)
  then show ?thesis using valid by (simp add: SendMessage_def isRetryable_ErrOpenState)
qed

theorem C6_circuit_open_not_retried_witness:
  "ValidateConfig example_config = None \<and>
   cb_state (example_breaker\<lparr>cb_state := StateOpen\<rparr>) = StateOpen \<and>
   fst (SendMessage example_config (example_env (DoFails Canceled) None)
         (example_world\<lparr>w_breaker := example_breaker\<lparr>cb_state := StateOpen\<rparr>\<rparr>))
     = Returns (Inl ErrOpenState) \<and>
   w_attempts (snd (SendMessage example_config (example_env (DoFails Canceled) None)
         (example_world\<lparr>w_breaker := example_breaker\<lparr>cb_state := StateOpen\<rparr>\<rparr>))) = 1"
  using C6_circuit_open_not_retried[of example_config "example_env (DoFails Canceled) None"
      "example_world\<lparr>w_breaker := example_breaker\<lparr>cb_state := StateOpen\<rparr>\<rparr>"]
  by (simp add: example_config_def validate_eval example_env_def example_world_def
        example_breaker_def expiry_Before_def)

section \<open>The error classifier: API error codes\<close>

text \<open>
  Claim C7 says that an API failure is retryable exactly when its error code is 429,
  500, 502, 503 or 504.  \<open>isRetryable\<close> reads the code out of the text of the error,
  description included.  An envelope with code 429 whose description is
  \<open>Too Many Requests: retry after 403\<close> is classified as not retryable, and one with
  code 400 whose description holds the digits 429 is classified as retryable.
\<close>

theorem C7_classification_reads_description:
  "\<not> isRetryable (api_error \<lparr>OK = False, Result = nil_RawMessage, ErrorCode = 429,
        Description = ''Too Many Requests: retry after 403'', RetryAfter = 403 * Second\<rparr>) \<and>
   isRetryable (api_error \<lparr>OK = False, Result = nil_RawMessage, ErrorCode = 400,
        Description = ''Bad Request: chat 4290012 not found'', RetryAfter = 0\<rparr>)"
  by (simp add: isRetryable_def extractTelegramError_def api_error_def strconv_Itoa_def
        nat_digits.simps digit_char_def)

section \<open>Validation of the configuration\<close>

text \<open>
  Claim C8 as stated: \<open>ValidateConfig\<close> returns an error whenever keep-alive, the
  idle-connection timeout, the rate limit or a breaker setting is not positive.  The
  default configuration with all of these set to zero or less is accepted.
\<close>

theorem C8_counterexample:
  "ValidateConfig (example_config\<lparr>KeepAlive := 0, IdleConnTimeout := - 1,
      RateLimitRequests := Finite 0, RateLimitBurst := 0, BreakerMaxRequests := 0,
      BreakerInterval := 0, BreakerTimeout := 0\<rparr>) = None"
  by (simp add: example_config_def validate_eval)

text \<open>
  Claim C8, amended: when the backoff factor is not NaN, \<open>ValidateConfig\<close> returns nil
  exactly when the token is set and well formed, the log path and the base address are
  set, the request timeout, the initial backoff, the maximal backoff and the backoff
  factor are positive, and the retry count is not negative.  No other field is read.
\<close>

theorem C8_ValidateConfig_checks:
  "RetryBackoffFactor cfg \<noteq> NaN \<Longrightarrow>
   ValidateConfig cfg = None \<longleftrightarrow>
   (BotToken cfg \<noteq> [] \<and> validateBotToken (BotToken cfg) \<and> LogFilePath cfg \<noteq> [] \<and>
    BaseURL cfg \<noteq> [] \<and> 0 < RequestTimeout cfg \<and> 0 < RetryInitialBackoff cfg \<and>
    0 < RetryMaxBackoff cfg \<and> float64_lt (Finite 0) (RetryBackoffFactor cfg) \<and>
    0 \<le> MaxRetries cfg)"
  by (cases "RetryBackoffFactor cfg") (auto simp: ValidateConfig_def)

theorem C8_ValidateConfig_checks_witness:
  "RetryBackoffFactor example_config \<noteq> NaN \<and>
   ValidateConfig example_config = None \<and> validateBotToken (BotToken example_config) \<and>
   float64_lt (Finite 0) (RetryBackoffFactor example_config) \<and>
   ValidateConfig (example_config\<lparr>RequestTimeout := 0\<rparr>)
     = Some (ErrorString ''REQUEST_TIMEOUT must be positive'') \<and>
   ValidateConfig (example_config\<lparr>RetryBackoffFactor := Finite 0\<rparr>)
     = Some (ErrorString ''RETRY_BACKOFF_FACTOR must be positive'')"
  using C8_ValidateConfig_checks[of example_config]
    C8_ValidateConfig_checks[of "example_config\<lparr>RetryBackoffFactor := Finite 0\<rparr>"]
  by (simp add: example_config_def validate_eval)

section \<open>The server's retry-after hint\<close>

text \<open>
  Claim C1 says that after a failure that carries a positive retry-after hint the
  next wait is that hint: a 429 response with \<open>Retry-After: 5\<close> makes the next wait 5
  seconds.  On that response \<open>executeRequest\<close> does put 5 seconds into the envelope,
  but \<open>sendMessageOnce\<close> returns an error that holds only the text of the code and
  the description, and the loop then asks \<open>errors.As\<close> for a \<open>*TelegramResponse\<close>:
  the send ends there, with no wait started.
\<close>

theorem C1_retry_after_hint_not_used:
  "fst (executeRequest example_config ''sendMessage'' (Responds too_many))
     = Inr \<lparr>OK = False, Result = nil_RawMessage, ErrorCode = 429,
            Description = ''Too Many Requests: retry after 5'', RetryAfter = 5 * Second\<rparr> \<and>
   fst (sendMessageOnce example_config (example_env (Responds too_many) None 0)
          example_world)
     = Inl (ErrorString ''telegram API error: 429 Too Many Requests: retry after 5'') \<and>
   fst (SendMessage example_config (example_env (Responds too_many) None) example_world)
     = Panics ''errors: *target must be interface or implement error'' \<and>
   w_waits (snd (SendMessage example_config (example_env (Responds too_many) None)
                   example_world)) = []"
proof -
  let ?env = "example_env (Responds too_many) None"
  let ?e = "ErrorString ''telegram API error: 429 Too Many Requests: retry after 5''"
  let ?w = "example_world\<lparr>w_attempts := w_attempts example_world + 1\<rparr>"
  have lt: "(0::int) < MaxRetries example_config" by (simp add: example_config_def)
  have r: "isRetryable ?e" by (simp add: isRetryable_def extractTelegramError_def)
  have b: "w_breaker ?w = example_breaker" "w_breaker example_world = example_breaker"
    by (simp_all add: example_world_def)
  obtain w1 where once: "sendMessageOnce example_config (?env (nat 0)) ?w = (Inl ?e, w1)"
    using once_too_many[OF b(1), of None "nat 0"]
    by (cases "sendMessageOnce example_config (?env (nat 0)) ?w") simp
  have w: "w_waits w1 = []"
    using sendMessageOnce_waits[of example_config "?env (nat 0)" ?w] once
    by (simp add: example_world_def)
  show ?thesis
    by (simp add: SendMessage_def valid_example execute_too_many once_too_many[OF b(2)] w
          sendLoop_retryable_panics[of 0 example_config ?env example_world, OF lt once r])
qed

section \<open>Application failures and the breaker\<close>

text \<open>
  Claim C2 as stated: only failures of the transport (of the round trip, of the
  reading of the body, of the parsing of the body) raise the failure count of the
  breaker.  A request that \<open>json.Marshal\<close> cannot encode and a base address that
  \<open>http.NewRequestWithContext\<close> cannot parse raise it too, before anything is sent;
  \<open>ValidateConfig\<close> accepts that base address.
\<close>

theorem C2_counterexample:
  "failures (w_breaker example_world) = 0 \<and>
   failures (w_breaker (snd (sendMessageOnce example_config
      (example_env (MarshalFails marshal_failure) None 0) example_world))) = 1 \<and>
   ValidateConfig (example_config\<lparr>BaseURL := '':''\<rparr>) = None \<and>
   failures (w_breaker (snd (sendMessageOnce (example_config\<lparr>BaseURL := '':''\<rparr>)
      (example_env (NewRequestFails no_scheme) None 0) example_world))) = 1"
  by (simp add: sendMessageOnce_def executeRequest_def breaker_eval example_eval
        failures_def example_config_def validate_eval)

text \<open>
  Claim C2, amended: when the body of the response parses to an envelope whose \<open>OK\<close>
  is false, \<open>executeRequest\<close> returns that envelope (with the retry-after duration it
  may have attached) and no error, so the breaker's \<open>Execute\<close> counts the request as
  a success and its failure count does not grow, while \<open>sendMessageOnce\<close> returns the
  API error.  \<open>executeRequest\<close> returns an error exactly when marshalling, the creation
  of the request, the round trip, the reading of the body or the parsing of the body
  fails; \<open>sendMessageOnce\<close> returns that error, and the breaker counts a failure.  For
  a closed breaker inside its counting window that the failure does not trip, the
  failure count grows by one exactly when \<open>executeRequest\<close> returns an error, and
  stays as it is exactly when it returns an envelope.
\<close>

theorem C2_breaker_counts_failures_of_executeRequest:
  assumes admitted: "e_limiter env = None"
    and closed: "cb_state (w_breaker w) = StateClosed"
    and unexpired: "cb_expiry (w_breaker w) = None \<or>
         \<not> expiry_Before (cb_expiry (w_breaker w)) (e_now0 env) \<and>
         \<not> expiry_Before (cb_expiry (w_breaker w)) (e_now1 env)"
  shows "(e_io env = Responds resp \<and> r_Body resp = Inr j \<and> \<not> j_ok j \<longrightarrow>
            (\<exists>d evs. executeRequest cfg ''sendMessage'' (e_io env) =
               (Inr \<lparr>OK = False, Result = j_result j, ErrorCode = j_error_code j,
                     Description = j_description j, RetryAfter = d\<rparr>, evs)) \<and>
            fst (sendMessageOnce cfg env w)
              = Inl (ErrorString (''telegram API error: '' @ strconv_Itoa (j_error_code j)
                                  @ '' '' @ j_description j)) \<and>
            cb_counts (w_breaker (snd (sendMessageOnce cfg env w)))
              = Counts_onSuccess (Counts_onRequest (cb_counts (w_breaker w))) \<and>
            failures (fst (snd (Execute cb now0 now1
                                  (executeRequest cfg ''sendMessage'' (e_io env)))))
              \<le> failures cb) \<and>
         ((\<exists>err. fst (executeRequest cfg ''sendMessage'' (e_io env)) = Inl err) \<longleftrightarrow>
            (case e_io env of
               Responds resp \<Rightarrow> (case r_Body resp of Inl e \<Rightarrow> True | Inr j \<Rightarrow> False)
             | _ \<Rightarrow> True)) \<and>
         (fst (executeRequest cfg ''sendMessage'' (e_io env)) = Inl err \<longrightarrow>
            fst (sendMessageOnce cfg env w) = Inl err \<and>
            w_breaker (snd (sendMessageOnce cfg env w))
              = fst (onFailure
                      ((w_breaker w)\<lparr>cb_counts := Counts_onRequest (cb_counts (w_breaker w))\<rparr>)
                      StateClosed (e_now1 env))) \<and>
         (\<not> ReadyToTrip (Counts_onFailure (Counts_onRequest (cb_counts (w_breaker w)))) \<longrightarrow>
            (TotalFailures (cb_counts (w_breaker (snd (sendMessageOnce cfg env w))))
               = TotalFailures (cb_counts (w_breaker w)) + 1
             \<longleftrightarrow> (\<exists>err. fst (executeRequest cfg ''sendMessage'' (e_io env)) = Inl err)) \<and>
            (TotalFailures (cb_counts (w_breaker (snd (sendMessageOnce cfg env w))))
               = TotalFailures (cb_counts (w_breaker w))
             \<longleftrightarrow> (\<exists>r. fst (executeRequest cfg ''sendMessage'' (e_io env)) = Inr r)))"
proof -
  let ?cb = "w_breaker w"
  let ?req = "executeRequest cfg ''sendMessage'' (e_io env)"
  let ?cb1 = "?cb\<lparr>cb_counts := Counts_onRequest (cb_counts ?cb)\<rparr>"
  obtain res evs where req: "?req = (res, evs)" by (cases ?req)
  have ok: "sendMessageOnce cfg env w =
      (if \<not> OK r then Inl (api_error r)
       else (case Result r of Inl e \<Rightarrow> Inl (WrapError ''failed to parse result: '' e)
                            | Inr msgResult \<Rightarrow> Inr msgResult),
       w\<lparr>w_breaker := ?cb\<lparr>cb_counts := Counts_onSuccess (Counts_onRequest (cb_counts ?cb))\<rparr>,
         w_logs := w_logs w @ evs\<rparr>)" if "res = Inr r" for r
    using that admitted
    by (simp add: sendMessageOnce_def req Let_def Execute_closed_success[OF closed unexpired]
          split: sum.splits)
  have ko: "sendMessageOnce cfg env w =
      (Inl e, w\<lparr>w_breaker := fst (onFailure ?cb1 StateClosed (e_now1 env)),
                w_logs := w_logs w @ evs @ snd (onFailure ?cb1 StateClosed (e_now1 env))\<rparr>)"
    if "res = Inl e" for e
    using that admitted
    by (simp add: sendMessageOnce_def req Let_def Execute_closed_failure[OF closed unexpired])
  have part1: "(\<exists>d evs. ?req =
               (Inr \<lparr>OK = False, Result = j_result j, ErrorCode = j_error_code j,
                     Description = j_description j, RetryAfter = d\<rparr>, evs)) \<and>
            fst (sendMessageOnce cfg env w)
              = Inl (ErrorString (''telegram API error: '' @ strconv_Itoa (j_error_code j)
                                  @ '' '' @ j_description j)) \<and>
            cb_counts (w_breaker (snd (sendMessageOnce cfg env w)))
              = Counts_onSuccess (Counts_onRequest (cb_counts ?cb)) \<and>
            failures (fst (snd (Execute cb now0 now1 ?req))) \<le> failures cb"
    if a: "e_io env = Responds resp \<and> r_Body resp = Inr j \<and> \<not> j_ok j"
  proof -
    have io: "e_io env = Responds resp" using a by simp
    obtain d evs' where e: "?req =
        (Inr \<lparr>OK = False, Result = j_result j, ErrorCode = j_error_code j,
              Description = j_description j, RetryAfter = d\<rparr>, evs')"
      using executeRequest_envelope[of resp j cfg "''sendMessage''"] a unfolding io by blast
    then have "res = Inr \<lparr>OK = False, Result = j_result j, ErrorCode = j_error_code j,
              Description = j_description j, RetryAfter = d\<rparr>" using req by simp
    then have "sendMessageOnce cfg env w =
        (Inl (api_error \<lparr>OK = False, Result = j_result j, ErrorCode = j_error_code j,
              Description = j_description j, RetryAfter = d\<rparr>),
         w\<lparr>w_breaker := ?cb\<lparr>cb_counts := Counts_onSuccess (Counts_onRequest (cb_counts ?cb))\<rparr>,
           w_logs := w_logs w @ evs\<rparr>)"
      using ok by simp
    then have "fst (sendMessageOnce cfg env w)
              = Inl (ErrorString (''telegram API error: '' @ strconv_Itoa (j_error_code j)
                                  @ '' '' @ j_description j))"
        "cb_counts (w_breaker (snd (sendMessageOnce cfg env w)))
              = Counts_onSuccess (Counts_onRequest (cb_counts ?cb))"
      by (simp_all add: api_error_def)
    moreover have "failures (fst (snd (Execute cb now0 now1 ?req))) \<le> failures cb"
      unfolding e by (rule failures_Execute_success)
    ultimately show ?thesis using e by blast
  qed
  have part2: "(\<exists>err. fst ?req = Inl err) \<longleftrightarrow>
            (case e_io env of
               Responds resp \<Rightarrow> (case r_Body resp of Inl e \<Rightarrow> True | Inr j \<Rightarrow> False)
             | _ \<Rightarrow> True)"
    by (rule executeRequest_error_cases)
  have part3: "fst (sendMessageOnce cfg env w) = Inl err \<and>
            w_breaker (snd (sendMessageOnce cfg env w))
              = fst (onFailure ?cb1 StateClosed (e_now1 env))"
    if "fst ?req = Inl err"
    using that req ko[of err] by simp
  have part4: "(TotalFailures (cb_counts (w_breaker (snd (sendMessageOnce cfg env w))))
               = TotalFailures (cb_counts ?cb) + 1
             \<longleftrightarrow> (\<exists>err. fst ?req = Inl err)) \<and>
            (TotalFailures (cb_counts (w_breaker (snd (sendMessageOnce cfg env w))))
               = TotalFailures (cb_counts ?cb)
             \<longleftrightarrow> (\<exists>r. fst ?req = Inr r))"
    if nt: "\<not> ReadyToTrip (Counts_onFailure (Counts_onRequest (cb_counts ?cb)))"
  proof (cases res)
    case (Inl e)
    have "onFailure ?cb1 StateClosed (e_now1 env)
            = (?cb1\<lparr>cb_counts := Counts_onFailure (cb_counts ?cb1)\<rparr>, [])"
      using nt by (intro onFailure_closed_counts) simp
    then have "TotalFailures (cb_counts (w_breaker (snd (sendMessageOnce cfg env w))))
                 = TotalFailures (cb_counts ?cb) + 1"
      using ko[OF Inl] by (simp add: Counts_onFailure_def Counts_onRequest_def)
    then show ?thesis using Inl req by simp
  next
    case (Inr r)
    have "TotalFailures (cb_counts (w_breaker (snd (sendMessageOnce cfg env w))))
                 = TotalFailures (cb_counts ?cb)"
      using ok[OF Inr] by (simp add: Counts_onSuccess_def Counts_onRequest_def)
    then show ?thesis using Inr req by simp
  qed
  show ?thesis
  proof (intro conjI)
    show "e_io env = Responds resp \<and> r_Body resp = Inr j \<and> \<not> j_ok j \<longrightarrow>
            (\<exists>d evs. ?req =
               (Inr \<lparr>OK = False, Result = j_result j, ErrorCode = j_error_code j,
                     Description = j_description j, RetryAfter = d\<rparr>, evs)) \<and>
            fst (sendMessageOnce cfg env w)
              = Inl (ErrorString (''telegram API error: '' @ strconv_Itoa (j_error_code j)
                                  @ '' '' @ j_description j)) \<and>
            cb_counts (w_breaker (snd (sendMessageOnce cfg env w)))
              = Counts_onSuccess (Counts_onRequest (cb_counts ?cb)) \<and>
            failures (fst (snd (Execute cb now0 now1 ?req))) \<le> failures cb"
      using part1 by (rule impI)
    show "(\<exists>err. fst ?req = Inl err) \<longleftrightarrow>
            (case e_io env of
               Responds resp \<Rightarrow> (case r_Body resp of Inl e \<Rightarrow> True | Inr j \<Rightarrow> False)
             | _ \<Rightarrow> True)"
      by (rule part2)
    show "fst ?req = Inl err \<longrightarrow>
            fst (sendMessageOnce cfg env w) = Inl err \<and>
            w_breaker (snd (sendMessageOnce cfg env w))
              = fst (onFailure ?cb1 StateClosed (e_now1 env))"
      using part3 by (rule impI)
    show "\<not> ReadyToTrip (Counts_onFailure (Counts_onRequest (cb_counts ?cb))) \<longrightarrow>
            (TotalFailures (cb_counts (w_breaker (snd (sendMessageOnce cfg env w))))
               = TotalFailures (cb_counts ?cb) + 1
             \<longleftrightarrow> (\<exists>err. fst ?req = Inl err)) \<and>
            (TotalFailures (cb_counts (w_breaker (snd (sendMessageOnce cfg env w))))
               = TotalFailures (cb_counts ?cb)
             \<longleftrightarrow> (\<exists>r. fst ?req = Inr r))"
      using part4 by (rule impI)
  qed
qed

theorem C2_breaker_counts_failures_of_executeRequest_witness:
  "e_limiter (example_env (Responds unavailable) None 0) = None \<and>
   cb_state (w_breaker example_world) = StateClosed \<and>
   \<not> expiry_Before (cb_expiry (w_breaker example_world)) (2 * Second) \<and>
   \<not> ReadyToTrip (Counts_onFailure (Counts_onRequest (cb_counts (w_breaker example_world)))) \<and>
   fst (sendMessageOnce example_config (example_env (Responds unavailable) None 0)
          example_world)
     = Inl (ErrorString ''telegram API error: 503 Service Unavailable'') \<and>
   cb_counts (w_breaker (snd (sendMessageOnce example_config
        (example_env (Responds unavailable) None 0) example_world)))
     = \<lparr>Requests = 1, TotalSuccesses = 1, TotalFailures = 0, ConsecutiveSuccesses = 1,
        ConsecutiveFailures = 0\<rparr> \<and>
   cb_counts (w_breaker (snd (sendMessageOnce example_config
        (example_env (MarshalFails marshal_failure) None 0) example_world)))
     = \<lparr>Requests = 1, TotalSuccesses = 0, TotalFailures = 1, ConsecutiveSuccesses = 0,
        ConsecutiveFailures = 1\<rparr> \<and>
   cb_counts (w_breaker (snd (sendMessageOnce (example_config\<lparr>BaseURL := '':''\<rparr>)
        (example_env (NewRequestFails no_scheme) None 0) example_world)))
     = \<lparr>Requests = 1, TotalSuccesses = 0, TotalFailures = 1, ConsecutiveSuccesses = 0,
        ConsecutiveFailures = 1\<rparr> \<and>
   cb_counts (w_breaker (snd (sendMessageOnce example_config
        (example_env (DoFails refused) None 0) example_world)))
     = \<lparr>Requests = 1, TotalSuccesses = 0, TotalFailures = 1, ConsecutiveSuccesses = 0,
        ConsecutiveFailures = 1\<rparr> \<and>
   cb_counts (w_breaker (snd (sendMessageOnce example_config
        (example_env (ReadFails unexpected_EOF) None 0) example_world)))
     = \<lparr>Requests = 1, TotalSuccesses = 0, TotalFailures = 1, ConsecutiveSuccesses = 0,
        ConsecutiveFailures = 1\<rparr> \<and>
   cb_counts (w_breaker (snd (sendMessageOnce example_config
        (example_env (Responds bad_gateway) None 0) example_world)))
     = \<lparr>Requests = 1, TotalSuccesses = 0, TotalFailures = 1, ConsecutiveSuccesses = 0,
        ConsecutiveFailures = 1\<rparr> \<and>
   fst (sendMessageOnce example_config (example_env (ReadFails unexpected_EOF) None 0)
          example_world)
     = Inl (WrapError ''failed to read response: '' unexpected_EOF) \<and>
   fst (sendMessageOnce example_config (example_env (Responds bad_gateway) None 0)
          example_world)
     = Inl (WrapError ''failed to parse response: ''
              (ErrorString ''invalid character '<' looking for beginning of value''))"
  using C2_breaker_counts_failures_of_executeRequest[of
      "example_env (Responds unavailable) None 0" example_world unavailable
      "\<lparr>j_ok = False, j_result = nil_RawMessage, j_error_code = 503,
        j_description = ''Service Unavailable''\<rparr>" example_config example_breaker Second
      "2 * Second" refused]
    C2_breaker_counts_failures_of_executeRequest[of
      "example_env (ReadFails unexpected_EOF) None 0" example_world unavailable
      "\<lparr>j_ok = False, j_result = nil_RawMessage, j_error_code = 503,
        j_description = ''Service Unavailable''\<rparr>" example_config example_breaker Second
      "2 * Second" "WrapError ''failed to read response: '' unexpected_EOF"]
    C2_breaker_counts_failures_of_executeRequest[of
      "example_env (Responds bad_gateway) None 0" example_world bad_gateway
      "\<lparr>j_ok = False, j_result = nil_RawMessage, j_error_code = 503,
        j_description = ''Service Unavailable''\<rparr>" example_config example_breaker Second
      "2 * Second" "WrapError ''failed to parse response: ''
              (ErrorString ''invalid character '<' looking for beginning of value'')"]
  by (simp add: sendMessageOnce_def executeRequest_def breaker_eval example_eval
        unavailable_def bad_gateway_def format_eval example_config_def)

section \<open>The credential in errors and log events\<close>

text \<open>
  Claim C4 says that no error returned by \<open>SendMessage\<close> and no log event holds the
  bot token.  When the connection is refused, the error of the HTTP client names the
  URL of the request, token included; \<open>executeRequest\<close> wraps that error, and
  \<open>SendMessage\<close> both logs it and returns it.
\<close>

theorem C4_transport_error_holds_token:
  "fst (SendMessage example_config (example_env (DoFails refused) None) example_world)
     = Returns (Inl leaked_error) \<and>
   strings_Contains (Error leaked_error) (BotToken example_config) \<and>
   last (w_logs (snd (SendMessage example_config (example_env (DoFails refused) None)
                        example_world)))
     = (LevelError, ''non-retryable error'',
        [(''error'', AError leaked_error), (''attempt'', AInt 0)])"
proof -
  have lt: "(0::int) < MaxRetries example_config" by (simp add: example_config_def)
  have once: "sendMessageOnce example_config (example_env (DoFails refused) None (nat 0))
      (example_world\<lparr>w_attempts := w_attempts example_world + 1\<rparr>)
   = (Inl leaked_error,
      \<lparr>w_breaker = example_breaker\<lparr>cb_counts :=
                      Counts_onFailure (Counts_onRequest Counts_clear)\<rparr>,
       w_logs = [], w_waits = [], w_attempts = 1\<rparr>)"
    using once_refused by simp
  show ?thesis
    by (simp add: SendMessage_def valid_example leaked_contains
          sendLoop_not_retryable[of 0 example_config "example_env (DoFails refused) None"
            example_world, OF lt once leaked_not_retryable])
qed

section \<open>Cancellation during the wait\<close>

text \<open>
  Claim C9 says that a cancellation that fires during the wait between two attempts
  makes \<open>SendMessage\<close> return the error of the context.  The \<open>select\<close> that would do
  so comes after the call of \<open>errors.As\<close>; no send ever starts a wait, and a send
  whose first attempt fails with a 503 and whose context is cancelled afterwards ends
  in the panic, not in the return of \<open>context.Canceled\<close>.
\<close>

theorem C9_wait_never_reached:
  "w_waits (snd (SendMessage cfg env w)) = w_waits w \<and>
   e_ctx_done (example_env (Responds unavailable) (Some Canceled) 0) = Some Canceled \<and>
   fst (SendMessage example_config (example_env (Responds unavailable) (Some Canceled))
          example_world)
     = Panics ''errors: *target must be interface or implement error'' \<and>
   fst (SendMessage example_config (example_env (Responds unavailable) (Some Canceled))
          example_world)
     \<noteq> Returns (Inl Canceled)"
proof -
  let ?env = "example_env (Responds unavailable) (Some Canceled)"
  let ?e = "ErrorString ''telegram API error: 503 Service Unavailable''"
  let ?w = "example_world\<lparr>w_attempts := w_attempts example_world + 1\<rparr>"
  have lt: "(0::int) < MaxRetries example_config" by (simp add: example_config_def)
  have r: "isRetryable ?e" by (simp add: isRetryable_def extractTelegramError_def)
  have b: "w_breaker ?w = example_breaker" by (simp add: example_world_def)
  obtain w1 where once: "sendMessageOnce example_config (?env (nat 0)) ?w = (Inl ?e, w1)"
    using once_unavailable[OF b, of "Some Canceled" "nat 0"]
    by (cases "sendMessageOnce example_config (?env (nat 0)) ?w") simp
  have ctx: "e_ctx_done (?env 0) = Some Canceled" by (simp add: example_env_def)
  have nowait: "w_waits (snd (SendMessage cfg env w)) = w_waits w"
    by (simp add: SendMessage_def sendLoop_never_waits split: option.splits)
  show ?thesis
    by (simp add: nowait ctx SendMessage_def[of example_config] valid_example
          sendLoop_retryable_panics[of 0 example_config ?env example_world, OF lt once r])
qed

end
